theory Spec2Isabelle
  imports Complex_Main "HOL-Library.Word"
begin

unbundle bit_operations_syntax

section \<open>JavaScript and GLSL numbers\<close>

text \<open>
  JavaScript numbers and GLSL floats are modelled as real numbers; NaN and the infinities
  of IEEE arithmetic are outside the model.  Comparisons, \<open>Math.min\<close>, \<open>Math.max\<close> and
  \<open>Math.floor\<close> are exact on doubles.  Arithmetic on the GPU is taken exactly, since GLSL
  leaves its precision to the implementation.  Integers that the code obtains with
  \<open>Math.floor\<close> are \<open>int\<close>.  The bitwise operator \<open>&\<close> converts both operands with
  ToInt32 (the value modulo \<open>2^32\<close>, read as a signed 32-bit number) before it combines them.
\<close>

definition js_bitand :: "int \<Rightarrow> int \<Rightarrow> int" where
  "js_bitand a b = sint ((word_of_int a :: 32 word) AND (word_of_int b :: 32 word))"

text \<open>
  Where a claim depends on the rounding of JavaScript's arithmetic, the rounding is written
  out: \<open>round_to p\<close> rounds a real number to the nearest binary floating-point number with
  a significand of \<open>p\<close> bits, ties to even.  \<open>double_round\<close> (53 bits) is the rounding of
  every arithmetic operation on doubles, \<open>fround\<close> (24 bits) the conversion of a double
  stored into a \<open>Float32Array\<close>.  Overflow to infinity, subnormal numbers and the sign of
  zero are outside the model.
\<close>

definition pow2 :: "int \<Rightarrow> real" where
  "pow2 e = (if 0 \<le> e then 2 ^ nat e else 1 / 2 ^ nat (- e))"

definition round_even :: "real \<Rightarrow> int" where
  "round_even x =
     (let f = \<lfloor>x\<rfloor>; d = x - of_int f in
      if d < 1 / 2 then f else if 1 / 2 < d then f + 1 else if even f then f else f + 1)"

definition round_to :: "nat \<Rightarrow> real \<Rightarrow> real" where
  "round_to p x =
     (if x = 0 then 0
      else let e = \<lfloor>log 2 \<bar>x\<bar>\<rfloor>; ulp = pow2 (e - int p + 1) in
           of_int (round_even (x / ulp)) * ulp)"

definition double_round :: "real \<Rightarrow> real" where
  "double_round = round_to 53"

definition fround :: "real \<Rightarrow> real" where
  "fround = round_to 24"

text \<open>\<open>Math.PI\<close>, the double nearest to \<open>pi\<close>: \<open>884279719003555 / 2^48\<close>.\<close>

definition Math_PI :: real where
  "Math_PI = 884279719003555 / 2 ^ 48"

text \<open>GLSL \<open>mod(x, y) = x - y * floor(x / y)\<close>.\<close>

definition glsl_mod :: "real \<Rightarrow> real \<Rightarrow> real" where
  "glsl_mod x y = x - y * of_int \<lfloor>x / y\<rfloor>"

text \<open>\<open>MathUtils.lerp(x, y, t) = (1 - t) * x + t * y\<close> and \<open>MathUtils.degToRad\<close>.\<close>

definition lerp :: "real \<Rightarrow> real \<Rightarrow> real \<Rightarrow> real" where
  "lerp x y t = (1 - t) * x + t * y"

definition toRadians :: "real \<Rightarrow> real" where
  "toRadians degrees = degrees * (pi / 180)"

text \<open>
  Both \<open>throw new Error(...)\<close> sites of the repository (the FFT message carries the
  offending value), and the \<open>RangeError\<close> that \<open>new Float32Array(length)\<close> throws for a
  length it cannot allocate.
\<close>

datatype error =
    FFT_resolution_must_be_power_of_two real
  | Ocean_LOD_requires_at_least_2_level_sizes
  | RangeError_invalid_typed_array_length

text \<open>
  \<open>new Float32Array(length)\<close> throws a \<open>RangeError\<close> when the byte length \<open>4 * length\<close>
  exceeds \<open>2^53 - 1\<close> (ECMAScript), and when the engine cannot allocate that many elements.
  The second bound depends on the engine and its memory; it is the parameter \<open>limit\<close>, the
  greatest length the engine allocates.
\<close>

definition Float32Array_throws :: "int \<Rightarrow> int \<Rightarrow> bool" where
  "Float32Array_throws limit len = (2 ^ 53 - 1 < 4 * len \<or> limit < len)"

section \<open>OceanFFT: construction and parameters\<close>

definition ensurePowerOfTwo :: "real \<Rightarrow> error + int" where
  "ensurePowerOfTwo v =
     (let integerValue = max 2 \<lfloor>v\<rfloor> in
      if js_bitand integerValue (integerValue - 1) \<noteq> 0
      then Inl (FFT_resolution_must_be_power_of_two v)
      else Inr integerValue)"

definition optionalParameter :: "'a option \<Rightarrow> 'a \<Rightarrow> 'a" where
  "optionalParameter v defaultValue = (case v of Some x \<Rightarrow> x | None \<Rightarrow> defaultValue)"

text \<open>The \<open>options\<close> object of the constructor; \<open>None\<close> is an absent (undefined) property.\<close>

record fft_options =
  opt_resolution :: "real option"
  opt_size :: "real option"
  opt_choppiness :: "real option"
  opt_windSpeed :: "real option"
  opt_windDirection :: "real option"
  opt_useHalfFloat :: "bool option"

text \<open>
  A phase texture holds one phase per texel \<open>(x, y)\<close> in its red channel (the other
  channels are written as 0).
\<close>

type_synonym phase_texture = "nat \<Rightarrow> nat \<Rightarrow> real"

text \<open>
  The state of an \<open>OceanFFT\<close> object.  The field \<open>size\<close> of the source is
  \<open>size_fft\<close> here.  Of the GPU resources, the contents of the seed texture and of the two
  phase framebuffers are part of the state; the other render targets appear by name in the
  renderer's command log below.
\<close>

record ocean_fft =
  resolution :: int
  size_fft :: real
  choppiness :: real
  windSpeed :: real
  windDirection :: real
  deltaTime :: real
  windVector :: "real \<times> real"
  initialized :: bool
  needsSpectrumInit :: bool
  pingPhase :: bool
  halfFloat :: bool
  pingPhaseTexture :: phase_texture
  pingPhaseFramebuffer :: phase_texture
  pongPhaseFramebuffer :: phase_texture

definition setWind :: "real \<Rightarrow> real \<Rightarrow> ocean_fft \<Rightarrow> ocean_fft" where
  "setWind speed directionRadians f =
     (let ws = max (1 / 100) speed in
      f\<lparr>windSpeed := ws,
        windDirection := directionRadians,
        windVector := (cos directionRadians * ws, sin directionRadians * ws),
        needsSpectrumInit := True\<rparr>)"

definition setSize :: "real \<Rightarrow> ocean_fft \<Rightarrow> ocean_fft" where
  "setSize sz f = f\<lparr>size_fft := max 32 sz, needsSpectrumInit := True\<rparr>"

definition setChoppiness :: "real \<Rightarrow> ocean_fft \<Rightarrow> ocean_fft" where
  "setChoppiness c f = f\<lparr>choppiness := max 0 c\<rparr>"

text \<open>
  \<open>#generateSeedPhaseTexture\<close>: texel \<open>(j, i)\<close> receives \<open>Math.random() * Math.PI * 2.0\<close>,
  two multiplications of doubles, stored into a \<open>Float32Array\<close>.  The random source is a
  parameter \<open>rnd\<close>: \<open>rnd i j\<close> is the double \<open>Math.random()\<close> returns in iteration
  \<open>(i, j)\<close> of the double loop.
\<close>

definition generateSeedPhaseTexture :: "(nat \<Rightarrow> nat \<Rightarrow> real) \<Rightarrow> phase_texture" where
  "generateSeedPhaseTexture rnd =
     (\<lambda>x y. fround (double_round (double_round (rnd y x * Math_PI) * 2)))"

text \<open>
  The constructor.  The resolution is validated first, so nothing is built when it throws;
  the size is stored as given.  The last step, \<open>#generateSeedPhaseTexture\<close>, allocates
  \<open>new Float32Array(resolution * resolution * 4)\<close> and throws when that length cannot be
  allocated.  The render targets start out zero-filled.
\<close>

definition new_OceanFFT ::
  "int \<Rightarrow> (nat \<Rightarrow> nat \<Rightarrow> real) \<Rightarrow> fft_options \<Rightarrow> error + ocean_fft" where
  "new_OceanFFT limit rnd options =
     (case ensurePowerOfTwo (optionalParameter (opt_resolution options) 256) of
        Inl e \<Rightarrow> Inl e
      | Inr res \<Rightarrow>
          if Float32Array_throws limit (res * res * 4)
          then Inl RangeError_invalid_typed_array_length
          else
          Inr (setWind (optionalParameter (opt_windSpeed options) 12)
                       (optionalParameter (opt_windDirection options) 0)
                 \<lparr>resolution = res,
                  size_fft = optionalParameter (opt_size options) 1000,
                  choppiness = optionalParameter (opt_choppiness options) (16 / 10),
                  windSpeed = optionalParameter (opt_windSpeed options) 12,
                  windDirection = optionalParameter (opt_windDirection options) 0,
                  deltaTime = 1 / 60,
                  windVector = (0, 0),
                  initialized = False,
                  needsSpectrumInit = True,
                  pingPhase = True,
                  halfFloat = optionalParameter (opt_useHalfFloat options) True,
                  pingPhaseTexture = generateSeedPhaseTexture rnd,
                  pingPhaseFramebuffer = (\<lambda>x y. 0),
                  pongPhaseFramebuffer = (\<lambda>x y. 0)\<rparr>))"

section \<open>The renderer\<close>

text \<open>
  The render targets and textures the passes bind.  \<open>PingPhaseTexture\<close> is the seed
  \<open>DataTexture\<close>; \<open>HostRenderTarget\<close> stands for any target of the host application.
  The bound target \<open>None\<close> is \<open>null\<close>, the canvas.
\<close>

datatype buffer =
    InitialSpectrumFramebuffer
  | SpectrumFramebuffer
  | PingPhaseFramebuffer
  | PongPhaseFramebuffer
  | PingTransformFramebuffer
  | PongTransformFramebuffer
  | DisplacementMapFramebuffer
  | NormalMapFramebuffer
  | PingPhaseTexture
  | ReflectionRenderTarget
  | HostRenderTarget nat

text \<open>
  The material a pass draws with; the two subtransform materials carry the uniform
  \<open>u_subtransformSize\<close> of the pass.  \<open>SceneMaterials\<close> is a draw of the host scene.
\<close>

datatype material =
    MaterialInitialSpectrum
  | MaterialPhase
  | MaterialSpectrum
  | MaterialOceanHorizontal nat
  | MaterialOceanVertical nat
  | MaterialNormal
  | SceneMaterials

text \<open>
  The renderer keeps a log of the commands that write to a target: \<open>Render m inputs t\<close> is
  a call of \<open>renderer.render\<close> with material \<open>m\<close> sampling the textures \<open>inputs\<close> while
  \<open>t\<close> is bound, \<open>Clear t\<close> a call of \<open>renderer.clear\<close>.
\<close>

datatype gpu_command =
    Clear "buffer option"
  | Render material "buffer list" "buffer option"

type_synonym vec3 = "real \<times> real \<times> real"
type_synonym vec4 = "real \<times> real \<times> real \<times> real"

record renderer =
  currentRenderTarget :: "buffer option"
  commands :: "gpu_command list"
  xr_enabled :: bool
  shadowMap_autoUpdate :: bool
  autoClear :: bool
  depth_mask :: bool
  state_viewport :: "vec4 option"

definition setRenderTarget :: "buffer option \<Rightarrow> renderer \<Rightarrow> renderer" where
  "setRenderTarget t r = r\<lparr>currentRenderTarget := t\<rparr>"

definition render :: "material \<Rightarrow> buffer list \<Rightarrow> renderer \<Rightarrow> renderer" where
  "render m inputs r = r\<lparr>commands := commands r @ [Render m inputs (currentRenderTarget r)]\<rparr>"

definition clear :: "renderer \<Rightarrow> renderer" where
  "clear r = r\<lparr>commands := commands r @ [Clear (currentRenderTarget r)]\<rparr>"

section \<open>OceanFFT: the passes of one update\<close>

text \<open>The phase shader of \<open>FFTShaders.phase\<close>, evaluated at the texel \<open>(x, y)\<close>.\<close>

definition G :: real where
  "G = 981 / 100"

definition KM :: real where
  "KM = 370"

definition omega :: "real \<Rightarrow> real" where
  "omega k = sqrt (G * k * (1 + k * k / (KM * KM)))"

text \<open>
  The length of the wave vector of the texel \<open>(x, y)\<close>: the texel coordinates are wrapped
  to signed indices and scaled by \<open>2 PI / u_size\<close>.
\<close>

definition waveNumber :: "real \<Rightarrow> real \<Rightarrow> nat \<Rightarrow> nat \<Rightarrow> real" where
  "waveNumber u_resolution u_size x y =
     (let cx = real x;
          cy = real y;
          n = (if cx < u_resolution * (1 / 2) then cx else cx - u_resolution);
          m = (if cy < u_resolution * (1 / 2) then cy else cy - u_resolution);
          waveVector = (2 * pi * n / u_size, 2 * pi * m / u_size)
      in sqrt (fst waveVector * fst waveVector + snd waveVector * snd waveVector))"

definition phase_shader :: "real \<Rightarrow> real \<Rightarrow> real \<Rightarrow> phase_texture \<Rightarrow> phase_texture" where
  "phase_shader u_resolution u_size u_deltaTime u_phases = (\<lambda>x y.
     let phase = u_phases x y;
         deltaPhase = omega (waveNumber u_resolution u_size x y) * u_deltaTime
     in glsl_mod (phase + deltaPhase) (2 * pi))"

text \<open>
  The texture a phase pass samples (\<open>u_phases\<close> in \<open>#renderWavePhase\<close>): the seed texture
  before the first pass, afterwards the phase framebuffer selected by \<open>pingPhase\<close>.  It holds
  the current phase field.
\<close>

definition phaseSourceBuffer :: "ocean_fft \<Rightarrow> buffer" where
  "phaseSourceBuffer f =
     (if \<not> initialized f then PingPhaseTexture
      else if pingPhase f then PingPhaseFramebuffer else PongPhaseFramebuffer)"

definition phaseSource :: "ocean_fft \<Rightarrow> phase_texture" where
  "phaseSource f =
     (if \<not> initialized f then pingPhaseTexture f
      else if pingPhase f then pingPhaseFramebuffer f else pongPhaseFramebuffer f)"

definition renderInitialSpectrum :: "ocean_fft \<times> renderer \<Rightarrow> ocean_fft \<times> renderer" where
  "renderInitialSpectrum = (\<lambda>(f, r).
     (f\<lparr>needsSpectrumInit := False\<rparr>,
      render MaterialInitialSpectrum []
        (clear (setRenderTarget (Some InitialSpectrumFramebuffer) r))))"

text \<open>
  \<open>#renderWavePhase\<close>: the first call samples the seed texture, later calls the phase
  framebuffer selected by \<open>pingPhase\<close>; the target is the other framebuffer of the pair, and
  the flag flips after the draw.
\<close>

definition renderWavePhase :: "ocean_fft \<times> renderer \<Rightarrow> ocean_fft \<times> renderer" where
  "renderWavePhase = (\<lambda>(f, r).
     let u_phases_buffer = phaseSourceBuffer f;
         u_phases = phaseSource f;
         f1 = f\<lparr>initialized := True\<rparr>;
         r1 = setRenderTarget
                (Some (if pingPhase f1 then PongPhaseFramebuffer else PingPhaseFramebuffer)) r;
         output = phase_shader (of_int (resolution f1)) (size_fft f1) (deltaTime f1) u_phases;
         f2 = (if pingPhase f1 then f1\<lparr>pongPhaseFramebuffer := output\<rparr>
               else f1\<lparr>pingPhaseFramebuffer := output\<rparr>)
     in (f2\<lparr>pingPhase := \<not> pingPhase f2\<rparr>, render MaterialPhase [u_phases_buffer] r1))"

definition renderSpectrum :: "ocean_fft \<times> renderer \<Rightarrow> ocean_fft \<times> renderer" where
  "renderSpectrum = (\<lambda>(f, r).
     (f, render MaterialSpectrum
           [InitialSpectrumFramebuffer,
            if pingPhase f then PingPhaseFramebuffer else PongPhaseFramebuffer]
           (setRenderTarget (Some SpectrumFramebuffer) r)))"

text \<open>
  \<open>Math.log2\<close> of the resolution.  The constructor only stores powers of two, for which
  the logarithm is the exponent.
\<close>

fun log2 :: "nat \<Rightarrow> nat" where
  "log2 n = (if n < 2 then 0 else Suc (log2 (n div 2)))"

text \<open>One iteration of the first (horizontal) loop of \<open>#renderSpectrumFFT\<close>.\<close>

definition horizontalPass :: "nat \<Rightarrow> nat \<Rightarrow> renderer \<Rightarrow> renderer" where
  "horizontalPass iterations i r =
     (let m = MaterialOceanHorizontal (2 ^ ((i mod iterations) + 1)) in
      if i = 0 then
        render m [SpectrumFramebuffer] (setRenderTarget (Some PingTransformFramebuffer) r)
      else if i mod 2 = 1 then
        render m [PingTransformFramebuffer] (setRenderTarget (Some PongTransformFramebuffer) r)
      else
        render m [PongTransformFramebuffer] (setRenderTarget (Some PingTransformFramebuffer) r))"

text \<open>One iteration of the second (vertical) loop.\<close>

definition verticalPass :: "nat \<Rightarrow> nat \<Rightarrow> renderer \<Rightarrow> renderer" where
  "verticalPass iterations i r =
     (let m = MaterialOceanVertical (2 ^ ((i mod iterations) + 1)) in
      if i + 1 = iterations * 2 then
        render m
          [if iterations mod 2 = 0 then PingTransformFramebuffer else PongTransformFramebuffer]
          (setRenderTarget (Some DisplacementMapFramebuffer) r)
      else if i mod 2 = 1 then
        render m [PingTransformFramebuffer] (setRenderTarget (Some PongTransformFramebuffer) r)
      else
        render m [PongTransformFramebuffer] (setRenderTarget (Some PingTransformFramebuffer) r))"

definition renderSpectrumFFT :: "ocean_fft \<times> renderer \<Rightarrow> ocean_fft \<times> renderer" where
  "renderSpectrumFFT = (\<lambda>(f, r).
     let iterations = log2 (nat (resolution f)) in
     (f, fold (verticalPass iterations) [iterations..<iterations * 2]
           (fold (horizontalPass iterations) [0..<iterations] r)))"

definition renderNormalMap :: "ocean_fft \<times> renderer \<Rightarrow> ocean_fft \<times> renderer" where
  "renderNormalMap = (\<lambda>(f, r).
     (f, render MaterialNormal [DisplacementMapFramebuffer]
           (clear (setRenderTarget (Some NormalMapFramebuffer) r))))"

text \<open>
  \<open>OceanFFT.update\<close>.  It has no failing branch: every \<open>deltaTime\<close> is clamped and the
  passes are issued; the target bound at entry is bound again at exit.
\<close>

definition OceanFFT_update :: "real \<Rightarrow> ocean_fft \<times> renderer \<Rightarrow> ocean_fft \<times> renderer" where
  "OceanFFT_update dt = (\<lambda>(f, r).
     let currentTarget = currentRenderTarget r;
         f0 = f\<lparr>deltaTime := min (1 / 10) (max (1 / 240) dt)\<rparr>;
         s1 = (if needsSpectrumInit f0 then renderInitialSpectrum (f0, r) else (f0, r));
         s2 = renderWavePhase s1;
         s3 = renderSpectrum s2;
         s4 = renderSpectrumFFT s3;
         s5 = renderNormalMap s4
     in (fst s5, setRenderTarget currentTarget (snd s5)))"

section \<open>OceanLODGrid\<close>

definition clampSegments :: "real \<Rightarrow> int" where
  "clampSegments v = min 512 (max 2 (round v))"

text \<open>
  A mesh made by \<open>createPatch\<close>: the plane geometry's extent and segment counts, the
  mesh position \<open>(offsetX, -levelIndex * 0.0045, offsetZ)\<close>, the render order and the
  material (a reference, see the section on \<open>OceanSystem\<close>).
\<close>

record patch =
  p_width :: real
  p_height :: real
  p_widthSegments :: int
  p_heightSegments :: int
  p_position :: vec3
  p_renderOrder :: int
  p_frustumCulled :: bool
  p_material :: nat

definition createPatch ::
  "real \<Rightarrow> real \<Rightarrow> real \<Rightarrow> real \<Rightarrow> real \<Rightarrow> real \<Rightarrow> nat \<Rightarrow> nat \<Rightarrow> patch" where
  "createPatch width height segX segY offsetX offsetZ levelIndex mat =
     \<lparr>p_width = width,
      p_height = height,
      p_widthSegments = clampSegments segX,
      p_heightSegments = clampSegments segY,
      p_position = (offsetX, - real levelIndex * (45 / 10000), offsetZ),
      p_renderOrder = 1000 - int levelIndex,
      p_frustumCulled = False,
      p_material = mat\<rparr>"

text \<open>
  The grid.  \<open>levels\<close> is the value passed by the caller: \<open>None\<close> when it is not an
  array.  The group's children are the meshes, in the same order.
\<close>

record lod_grid =
  grid_material :: nat
  levels :: "real list option"
  baseCellSize :: real
  ringOverlap :: real
  snapSize :: real
  group_position :: vec3
  group_scale :: vec3
  meshes :: "patch list"

definition addMesh :: "patch \<Rightarrow> lod_grid \<Rightarrow> lod_grid" where
  "addMesh mesh g = g\<lparr>meshes := meshes g @ [mesh]\<rparr>"

text \<open>The body of the ring loop of \<open>#build\<close> for index \<open>i\<close>: four strips.\<close>

definition addRing :: "real list \<Rightarrow> nat \<Rightarrow> lod_grid \<Rightarrow> lod_grid" where
  "addRing lv i g =
     (let inner = lv ! (i - 1);
          outer = lv ! i;
          ringWidth = (outer - inner) * (1 / 2);
          cellSize = baseCellSize g * 2 ^ i;
          overlap = min (ringWidth * (1 / 4)) (ringOverlap g * cellSize);
          longSegments = outer / cellSize;
          shortSegments = (ringWidth + overlap * 2) / cellSize;
          innerSegments = inner / cellSize;
          stripHeight = ringWidth + overlap * 2;
          stripWidth = outer + overlap * 2;
          innerStrip = inner + overlap * 2;
          distanceFromCenter = inner * (1 / 2) + ringWidth * (1 / 2);
          m = grid_material g
      in addMesh (createPatch stripHeight innerStrip shortSegments innerSegments
                    distanceFromCenter 0 i m)
          (addMesh (createPatch stripHeight innerStrip shortSegments innerSegments
                      (- distanceFromCenter) 0 i m)
            (addMesh (createPatch stripWidth stripHeight longSegments shortSegments
                        0 distanceFromCenter i m)
              (addMesh (createPatch stripWidth stripHeight longSegments shortSegments
                          0 (- distanceFromCenter) i m) g))))"

text \<open>
  \<open>#build\<close> returns the grid as it stands when the method ends, together with the error
  thrown, if any.  The only check is the one on the array and its length; the ring loop
  reads \<open>levels[i - 1]\<close> and \<open>levels[i]\<close> for \<open>1 \<le> i < length\<close>, always in range.
\<close>

definition build :: "lod_grid \<Rightarrow> lod_grid \<times> error option" where
  "build g =
     (case levels g of
        None \<Rightarrow> (g, Some Ocean_LOD_requires_at_least_2_level_sizes)
      | Some lv \<Rightarrow>
          if length lv < 2 then (g, Some Ocean_LOD_requires_at_least_2_level_sizes)
          else
            let centerSize = lv ! 0;
                centerSegments = centerSize / baseCellSize g;
                g1 = addMesh (createPatch centerSize centerSize centerSegments centerSegments
                                0 0 0 (grid_material g)) g
            in (fold (addRing lv) [1..<length lv] g1, None))"

text \<open>
  The constructor; \<open>baseCellSize\<close> and \<open>ringOverlap\<close> default to 1 and 0.5 when absent.
  When \<open>#build\<close> throws, the constructor throws and no grid object is returned.
\<close>

definition new_OceanLODGrid ::
  "nat \<Rightarrow> real list option \<Rightarrow> real option \<Rightarrow> real option \<Rightarrow> error + lod_grid" where
  "new_OceanLODGrid mat lv cell ov =
     (case build \<lparr>grid_material = mat,
                  levels = lv,
                  baseCellSize = optionalParameter cell 1,
                  ringOverlap = optionalParameter ov (1 / 2),
                  snapSize = optionalParameter cell 1,
                  group_position = (0, 0, 0),
                  group_scale = (1, 1, 1),
                  meshes = []\<rparr> of
        (g, None) \<Rightarrow> Inr g
      | (g, Some e) \<Rightarrow> Inl e)"

text \<open>
  \<open>update\<close>: \<open>Math.floor(p / snapSize) * snapSize\<close> on doubles.  The quotient is rounded
  before the floor is taken and the product is rounded after it.
\<close>

definition snap :: "real \<Rightarrow> real \<Rightarrow> real" where
  "snap c s = double_round (of_int \<lfloor>double_round (c / s)\<rfloor> * s)"

definition OceanLODGrid_update :: "vec3 \<Rightarrow> lod_grid \<Rightarrow> lod_grid" where
  "OceanLODGrid_update cameraPosition g =
     (case (cameraPosition, group_position g) of
        ((cx, cy, cz), (gx, gy, gz)) \<Rightarrow>
          g\<lparr>group_position := (snap cx (snapSize g), gy, snap cz (snapSize g))\<rparr>)"

definition setLodScale :: "real \<Rightarrow> lod_grid \<Rightarrow> lod_grid" where
  "setLodScale scale g =
     (let clamped = max (1 / 2) (min (5 / 2) scale) in
      g\<lparr>group_scale := (clamped, 1, clamped)\<rparr>)"

definition OceanLODGrid_dispose :: "lod_grid \<Rightarrow> lod_grid" where
  "OceanLODGrid_dispose g = g\<lparr>meshes := []\<rparr>"

section \<open>OceanSystem\<close>

text \<open>
  A value found under a key of \<open>QUALITY_PRESETS\<close>, read through its six preset
  properties; \<open>None\<close> is a property the value does not have (\<open>undefined\<close>).
\<close>

text \<open>
  The base cell sizes 1.2 and 0.95 of the source are the doubles nearest to these decimals
  (1.75 is a double); they are the snap sizes of \<open>OceanLODGrid.update\<close>.
\<close>

record quality =
  q_fftResolution :: "real option"
  q_simulationSize :: "real option"
  q_levelSizes :: "real list option"
  q_baseCellSize :: "real option"
  q_ringOverlap :: "real option"
  q_displacementScale :: "real option"

definition performance :: quality where
  "performance =
     \<lparr>q_fftResolution = Some 128,
      q_simulationSize = Some 840,
      q_levelSizes = Some [224, 448, 896, 1792, 3584, 7168, 14336],
      q_baseCellSize = Some (175 / 100),
      q_ringOverlap = Some (4 / 10),
      q_displacementScale = Some (95 / 100)\<rparr>"

definition balanced :: quality where
  "balanced =
     \<lparr>q_fftResolution = Some 256,
      q_simulationSize = Some 980,
      q_levelSizes = Some [256, 512, 1024, 2048, 4096, 8192, 16384],
      q_baseCellSize = Some (double_round (12 / 10)),
      q_ringOverlap = Some (5 / 10),
      q_displacementScale = Some (11 / 10)\<rparr>"

definition cinematic :: quality where
  "cinematic =
     \<lparr>q_fftResolution = Some 512,
      q_simulationSize = Some 1180,
      q_levelSizes = Some [320, 640, 1280, 2560, 5120, 10240, 20480],
      q_baseCellSize = Some (double_round (95 / 100)),
      q_ringOverlap = Some (6 / 10),
      q_displacementScale = Some (124 / 100)\<rparr>"

text \<open>
  \<open>QUALITY_PRESETS\<close> is an object literal, so the expression
  \<open>QUALITY_PRESETS[qualityPreset]\<close> finds the three own keys and, through the prototype
  chain, the members of \<open>Object.prototype\<close>.  Those members are functions (or, for
  \<open>__proto__\<close>, the prototype object): truthy values with none of the preset properties.
\<close>

definition Object_prototype_keys :: "string list" where
  "Object_prototype_keys =
     [''constructor'', ''__proto__'', ''hasOwnProperty'', ''isPrototypeOf'',
      ''propertyIsEnumerable'', ''toString'', ''toLocaleString'', ''valueOf'',
      ''__defineGetter__'', ''__defineSetter__'', ''__lookupGetter__'', ''__lookupSetter__'']"

definition Object_prototype_member :: quality where
  "Object_prototype_member =
     \<lparr>q_fftResolution = None,
      q_simulationSize = None,
      q_levelSizes = None,
      q_baseCellSize = None,
      q_ringOverlap = None,
      q_displacementScale = None\<rparr>"

definition QUALITY_PRESETS :: "string \<Rightarrow> quality option" where
  "QUALITY_PRESETS key =
     (if key = ''performance'' then Some performance
      else if key = ''balanced'' then Some balanced
      else if key = ''cinematic'' then Some cinematic
      else if key \<in> set Object_prototype_keys then Some Object_prototype_member
      else None)"

text \<open>\<open>QUALITY_PRESETS[qualityPreset] || QUALITY_PRESETS.balanced\<close>\<close>

definition select_quality :: "string \<Rightarrow> quality" where
  "select_quality qualityPreset =
     (case QUALITY_PRESETS qualityPreset of Some q \<Rightarrow> q | None \<Rightarrow> balanced)"

record params =
  param_windSpeed :: real
  param_windDirection :: real
  param_choppiness :: real
  param_foamIntensity :: real
  param_sunElevation :: real
  param_lodScale :: real
  param_reflectionStrength :: real
  param_reflectionDistortion :: real
  param_sunScatterStrength :: real
  param_foamScale :: real

text \<open>
  \<open>{ ...DEFAULT_PARAMS, ...params }\<close>: the caller's object is a dictionary from parameter
  names to numbers, and each default holds where the caller gave nothing.
\<close>

definition merge_params :: "(string \<rightharpoonup> real) \<Rightarrow> params" where
  "merge_params given =
     \<lparr>param_windSpeed = optionalParameter (given ''windSpeed'') 11,
      param_windDirection = optionalParameter (given ''windDirection'') 140,
      param_choppiness = optionalParameter (given ''choppiness'') (145 / 100),
      param_foamIntensity = optionalParameter (given ''foamIntensity'') (52 / 100),
      param_sunElevation = optionalParameter (given ''sunElevation'') 24,
      param_lodScale = optionalParameter (given ''lodScale'') 1,
      param_reflectionStrength = optionalParameter (given ''reflectionStrength'') (62 / 100),
      param_reflectionDistortion = optionalParameter (given ''reflectionDistortion'') (16 / 1000),
      param_sunScatterStrength = optionalParameter (given ''sunScatterStrength'') (24 / 100),
      param_foamScale = optionalParameter (given ''foamScale'') (17 / 100)\<rparr>"

text \<open>
  A 4x4 matrix is the list of its 16 elements in column-major order, as in
  \<open>Matrix4.elements\<close>.
\<close>

type_synonym mat4 = "real list"

definition mat4_identity :: mat4 where
  "mat4_identity = [1, 0, 0, 0,  0, 1, 0, 0,  0, 0, 1, 0,  0, 0, 0, 1]"

text \<open>
  The uniforms that the modelled methods write, with the initial values given by
  \<open>createOceanMaterial\<close>.  The two simulation maps are named by the reference of the
  \<open>OceanFFT\<close> that owns them; \<open>uReflectionMap = None\<close> is the default 1x1 texture; an
  optional number is \<open>None\<close> where JavaScript computes with \<open>undefined\<close>.
\<close>

record uniforms =
  uTime :: real
  uDisplacementMap :: nat
  uNormalMap :: nat
  uSimSize :: "real option"
  uDisplacementScale :: "real option"
  uNormalStrength :: real
  uRoughness :: real
  uFoamIntensity :: real
  uReflectionMap :: "buffer option"
  uReflectionMatrix :: mat4
  uReflectionStrength :: real
  uReflectionDistortion :: real
  uSunScatterStrength :: real
  uFoamScale :: real
  uDetailDrift :: "real \<times> real"

definition createOceanMaterial :: "nat \<Rightarrow> real option \<Rightarrow> uniforms" where
  "createOceanMaterial fftRef simSize =
     \<lparr>uTime = 0,
      uDisplacementMap = fftRef,
      uNormalMap = fftRef,
      uSimSize = simSize,
      uDisplacementScale = Some 1,
      uNormalStrength = 1,
      uRoughness = 15 / 100,
      uFoamIntensity = 55 / 100,
      uReflectionMap = None,
      uReflectionMatrix = mat4_identity,
      uReflectionStrength = 58 / 100,
      uReflectionDistortion = 16 / 1000,
      uSunScatterStrength = 24 / 100,
      uFoamScale = 17 / 100,
      uDetailDrift = (0, 0)\<rparr>"

text \<open>
  The state of an \<open>OceanSystem\<close>.  Object identity is explicit: every \<open>OceanFFT\<close>,
  material and \<open>OceanLODGrid\<close> the system constructs receives a fresh reference (the number
  of objects constructed before it, \<open>allocated\<close>), stored beside the object; \<open>disposed\<close>
  lists the references whose \<open>dispose\<close> was called, in order; \<open>root_children\<close> are the
  groups attached to the root.
\<close>

record ocean_system =
  qualityPreset :: string
  quality :: quality
  params :: params
  fft :: "(nat \<times> ocean_fft) option"
  lodGrid :: "(nat \<times> lod_grid) option"
  material_ref :: "nat option"
  uniforms :: "uniforms option"
  root_children :: "nat list"
  allocated :: nat
  disposed :: "nat list"

definition teardown :: "ocean_system \<Rightarrow> ocean_system" where
  "teardown s =
     (let s1 = (case lodGrid s of
                  Some (ref, g) \<Rightarrow>
                    s\<lparr>disposed := disposed s @ [ref],
                      root_children := removeAll ref (root_children s),
                      lodGrid := None\<rparr>
                | None \<Rightarrow> s);
          s2 = (case material_ref s1 of
                  Some ref \<Rightarrow>
                    s1\<lparr>disposed := disposed s1 @ [ref], material_ref := None, uniforms := None\<rparr>
                | None \<Rightarrow> s1)
      in (case fft s2 of
            Some (ref, f) \<Rightarrow> s2\<lparr>disposed := disposed s2 @ [ref], fft := None\<rparr>
          | None \<Rightarrow> s2))"

definition applyOceanParams :: "ocean_system \<Rightarrow> ocean_system" where
  "applyOceanParams s =
     (case (fft s, uniforms s) of
        (Some (fref, f), Some u) \<Rightarrow>
          let p = params s;
              f1 = setChoppiness (param_choppiness p)
                     (setWind (param_windSpeed p) (toRadians (param_windDirection p)) f);
              u1 = u\<lparr>uFoamIntensity := param_foamIntensity p,
                     uDisplacementScale :=
                       map_option (\<lambda>d. d * lerp (85 / 100) (12 / 10) (param_choppiness p / (32 / 10)))
                         (q_displacementScale (quality s)),
                     uNormalStrength :=
                       lerp (92 / 100) (135 / 100) (min (param_choppiness p) (32 / 10) / (32 / 10)),
                     uRoughness := lerp (9 / 100) (23 / 100) (min (param_windSpeed p) 30 / 30),
                     uDetailDrift :=
                       (cos (toRadians (param_windDirection p)),
                        sin (toRadians (param_windDirection p))),
                     uReflectionStrength := param_reflectionStrength p,
                     uReflectionDistortion := param_reflectionDistortion p,
                     uSunScatterStrength := param_sunScatterStrength p,
                     uFoamScale := param_foamScale p\<rparr>
          in s\<lparr>fft := Some (fref, f1),
               uniforms := Some u1,
               lodGrid := map_option (\<lambda>(gref, g). (gref, setLodScale (param_lodScale p) g))
                            (lodGrid s)\<rparr>
      | _ \<Rightarrow> s)"

text \<open>
  \<open>rebuild\<close> returns the system as it stands when the method ends and the error thrown, if
  any.  The preset name and the selected quality are stored and the old resources torn down
  before anything that can throw; a constructor that throws leaves the field it was to fill
  as the teardown left it.
\<close>

definition rebuild ::
  "int \<Rightarrow> (nat \<Rightarrow> nat \<Rightarrow> real) \<Rightarrow> string \<Rightarrow> ocean_system \<Rightarrow> ocean_system \<times> error option"
  where
  "rebuild limit rnd name s =
     (let s1 = teardown (s\<lparr>qualityPreset := name, quality := select_quality name\<rparr>);
          q = quality s1;
          p = params s1
      in case new_OceanFFT limit rnd
                \<lparr>opt_resolution = q_fftResolution q,
                 opt_size = q_simulationSize q,
                 opt_choppiness = Some (param_choppiness p),
                 opt_windSpeed = Some (param_windSpeed p),
                 opt_windDirection = Some (toRadians (param_windDirection p)),
                 opt_useHalfFloat = Some True\<rparr> of
           Inl e \<Rightarrow> (s1, Some e)
         | Inr f \<Rightarrow>
             let fref = allocated s1;
                 mref = fref + 1;
                 s2 = s1\<lparr>fft := Some (fref, f),
                         material_ref := Some mref,
                         uniforms := Some (createOceanMaterial fref (q_simulationSize q)),
                         allocated := mref + 1\<rparr>
             in case new_OceanLODGrid mref (q_levelSizes q) (q_baseCellSize q) (q_ringOverlap q) of
                  Inl e \<Rightarrow> (s2, Some e)
                | Inr g \<Rightarrow>
                    let gref = allocated s2 in
                    (applyOceanParams
                       (s2\<lparr>lodGrid := Some (gref, setLodScale (param_lodScale p) g),
                           root_children := root_children s2 @ [gref],
                           allocated := gref + 1\<rparr>),
                     None))"

text \<open>
  The constructor; the preset name defaults to \<open>'balanced'\<close> when the caller gives none.
  When \<open>rebuild\<close> throws, so does the constructor, and the caller receives no object.
\<close>

definition new_OceanSystem ::
  "int \<Rightarrow> (nat \<Rightarrow> nat \<Rightarrow> real) \<Rightarrow> string option \<Rightarrow> (string \<rightharpoonup> real)
     \<Rightarrow> error + ocean_system" where
  "new_OceanSystem limit rnd qualityPresetArg given =
     (let name = optionalParameter qualityPresetArg ''balanced'' in
      case rebuild limit rnd name
             \<lparr>qualityPreset = name,
              quality = select_quality name,
              params = merge_params given,
              fft = None,
              lodGrid = None,
              material_ref = None,
              uniforms = None,
              root_children = [],
              allocated = 0,
              disposed = []\<rparr> of
        (s, None) \<Rightarrow> Inr s
      | (s, Some e) \<Rightarrow> Inl e)"

definition setQualityPreset ::
  "int \<Rightarrow> (nat \<Rightarrow> nat \<Rightarrow> real) \<Rightarrow> string \<Rightarrow> ocean_system \<Rightarrow> ocean_system \<times> error option"
  where
  "setQualityPreset limit rnd presetName s =
     (if presetName = qualityPreset s then (s, None) else rebuild limit rnd presetName s)"

section \<open>PlanarReflectionPass\<close>

subsection \<open>Vector and matrix operations of three.js used by the pass\<close>

text \<open>
  The operations of \<open>Vector3\<close>, \<open>Vector4\<close> and \<open>Matrix4\<close> that the pass calls, written
  out on triples and on element lists (a matrix has 16 elements).
\<close>

fun v3_add :: "vec3 \<Rightarrow> vec3 \<Rightarrow> vec3" where
  "v3_add (ax, ay, az) (bx, by, bz) = (ax + bx, ay + by, az + bz)"

fun v3_sub :: "vec3 \<Rightarrow> vec3 \<Rightarrow> vec3" where
  "v3_sub (ax, ay, az) (bx, by, bz) = (ax - bx, ay - by, az - bz)"

fun v3_dot :: "vec3 \<Rightarrow> vec3 \<Rightarrow> real" where
  "v3_dot (ax, ay, az) (bx, by, bz) = ax * bx + ay * by + az * bz"

fun v3_multiplyScalar :: "vec3 \<Rightarrow> real \<Rightarrow> vec3" where
  "v3_multiplyScalar (ax, ay, az) k = (ax * k, ay * k, az * k)"

definition v3_negate :: "vec3 \<Rightarrow> vec3" where
  "v3_negate a = v3_multiplyScalar a (- 1)"

definition v3_length :: "vec3 \<Rightarrow> real" where
  "v3_length a = sqrt (v3_dot a a)"

text \<open>\<open>normalize\<close> is \<open>divideScalar(length() || 1)\<close>.\<close>

definition v3_normalize :: "vec3 \<Rightarrow> vec3" where
  "v3_normalize a =
     v3_multiplyScalar a (1 / (if v3_length a = 0 then 1 else v3_length a))"

text \<open>\<open>reflect(n)\<close> is \<open>this - 2 (this . n) n\<close>.\<close>

definition v3_reflect :: "vec3 \<Rightarrow> vec3 \<Rightarrow> vec3" where
  "v3_reflect a n = v3_sub a (v3_multiplyScalar n (2 * v3_dot a n))"

fun v3_applyMatrix4 :: "mat4 \<Rightarrow> vec3 \<Rightarrow> vec3" where
  "v3_applyMatrix4 e (x, y, z) =
     (let w = 1 / (e ! 3 * x + e ! 7 * y + e ! 11 * z + e ! 15) in
      ((e ! 0 * x + e ! 4 * y + e ! 8 * z + e ! 12) * w,
       (e ! 1 * x + e ! 5 * y + e ! 9 * z + e ! 13) * w,
       (e ! 2 * x + e ! 6 * y + e ! 10 * z + e ! 14) * w))"

definition setFromMatrixPosition :: "mat4 \<Rightarrow> vec3" where
  "setFromMatrixPosition e = (e ! 12, e ! 13, e ! 14)"

definition extractRotation :: "mat4 \<Rightarrow> mat4" where
  "extractRotation e =
     (let scaleX = 1 / v3_length (e ! 0, e ! 1, e ! 2);
          scaleY = 1 / v3_length (e ! 4, e ! 5, e ! 6);
          scaleZ = 1 / v3_length (e ! 8, e ! 9, e ! 10)
      in [e ! 0 * scaleX, e ! 1 * scaleX, e ! 2 * scaleX, 0,
          e ! 4 * scaleY, e ! 5 * scaleY, e ! 6 * scaleY, 0,
          e ! 8 * scaleZ, e ! 9 * scaleZ, e ! 10 * scaleZ, 0,
          0, 0, 0, 1])"

text \<open>\<open>a.multiply(b)\<close>: the product \<open>a b\<close>, element \<open>(row, col)\<close> at index \<open>col * 4 + row\<close>.\<close>

definition mat4_multiply :: "mat4 \<Rightarrow> mat4 \<Rightarrow> mat4" where
  "mat4_multiply a b =
     map (\<lambda>i. \<Sum>k\<leftarrow>[0..<4]. a ! (k * 4 + i mod 4) * b ! ((i div 4) * 4 + k)) [0..<16]"

fun v4_dot :: "vec4 \<Rightarrow> vec4 \<Rightarrow> real" where
  "v4_dot (ax, ay, az, aw) (bx, by, bz, bw) = ax * bx + ay * by + az * bz + aw * bw"

fun v4_multiplyScalar :: "vec4 \<Rightarrow> real \<Rightarrow> vec4" where
  "v4_multiplyScalar (ax, ay, az, aw) k = (ax * k, ay * k, az * k, aw * k)"

text \<open>
  Two operations of three.js are parameters of the model: the view matrix
  (\<open>matrixWorldInverse\<close>) that \<open>lookAt\<close> and \<open>updateMatrixWorld\<close> give a camera with a
  position, an up vector and a target, and \<open>Plane.applyMatrix4\<close> on a plane given by its
  normal and its constant.
\<close>

record three_js =
  lookAt_matrixWorldInverse :: "vec3 \<Rightarrow> vec3 \<Rightarrow> vec3 \<Rightarrow> mat4"
  plane_applyMatrix4 :: "vec3 \<times> real \<Rightarrow> mat4 \<Rightarrow> vec3 \<times> real"

subsection \<open>The pass\<close>

definition CLIP_BIAS :: real where
  "CLIP_BIAS = 3 / 1000"

definition reflectionTextureMatrix :: mat4 where
  "reflectionTextureMatrix =
     [1 / 2, 0, 0, 0,  0, 1 / 2, 0, 0,  0, 0, 1 / 2, 0,  1 / 2, 1 / 2, 1 / 2, 1]"

record object3d =
  visible :: bool
  matrixWorld :: mat4

record camera =
  cam_matrixWorld :: mat4
  cam_projectionMatrix :: mat4
  cam_fov :: real
  cam_aspect :: real
  cam_near :: real
  cam_far :: real
  cam_viewport :: "vec4 option"

record mirror_camera =
  mc_position :: vec3
  mc_up :: vec3
  mc_fov :: real
  mc_aspect :: real
  mc_near :: real
  mc_far :: real
  mc_matrixWorldInverse :: mat4
  mc_projectionMatrix :: mat4

text \<open>
  The pass with the objects it holds references to: the renderer, the camera and the ocean
  root (\<open>None\<close> when absent).  Its render target is \<open>ReflectionRenderTarget\<close>, whose
  texture \<open>getTexture\<close> returns; what the target holds is decided by the commands of the
  renderer's log that were issued while it was bound.
\<close>

record reflection_pass =
  rp_renderer :: renderer
  rp_camera :: camera
  oceanRoot :: "object3d option"
  resolutionScale :: real
  textureMatrix :: mat4
  mirrorCamera :: mirror_camera
  mirrorPlane :: "vec3 \<times> real"
  rp_normal :: vec3
  mirrorWorldPosition :: vec3
  cameraWorldPosition :: vec3
  rotationMatrix :: mat4
  lookAtPosition :: vec3
  clipPlane :: vec4
  rp_view :: vec3
  rp_target :: vec3
  rp_q :: vec4

text \<open>
  \<open>update\<close>, first part (up to the side test): the scratch vectors of the pass are filled
  from the world matrices of the ocean root and of the camera.
\<close>

definition computeView :: "object3d \<Rightarrow> reflection_pass \<Rightarrow> reflection_pass" where
  "computeView oroot p =
     (let p1 = p\<lparr>mirrorWorldPosition := setFromMatrixPosition (matrixWorld oroot),
                  cameraWorldPosition := setFromMatrixPosition (cam_matrixWorld (rp_camera p)),
                  rotationMatrix := extractRotation (matrixWorld oroot)\<rparr>;
          p2 = p1\<lparr>rp_normal := v3_normalize (v3_applyMatrix4 (rotationMatrix p1) (0, 1, 0))\<rparr>
      in p2\<lparr>rp_view := v3_sub (mirrorWorldPosition p2) (cameraWorldPosition p2)\<rparr>)"

text \<open>
  \<open>update\<close>, second part (after the side test): the mirror camera, the texture matrix, the
  oblique near plane, the draw of the scene into the reflection target with the renderer's
  state saved and restored, and the two reflection uniforms.
\<close>

definition renderReflection ::
  "three_js \<Rightarrow> object3d \<Rightarrow> reflection_pass \<times> uniforms option \<Rightarrow> reflection_pass \<times> uniforms option"
  where
  "renderReflection three oroot = (\<lambda>(p, oceanUniforms).
     let cam = rp_camera p;
         n = rp_normal p;
         view1 = v3_add (v3_negate (v3_reflect (rp_view p) n)) (mirrorWorldPosition p);
         rot = extractRotation (cam_matrixWorld cam);
         lookAt1 = v3_add (v3_applyMatrix4 rot (0, 0, - 1)) (cameraWorldPosition p);
         target1 = v3_add (v3_negate (v3_reflect (v3_sub (mirrorWorldPosition p) lookAt1) n))
                     (mirrorWorldPosition p);
         up1 = v3_reflect (v3_applyMatrix4 rot (0, 1, 0)) n;
         inverse1 = lookAt_matrixWorldInverse three view1 up1 target1;
         pm = cam_projectionMatrix cam;
         textureMatrix1 = mat4_multiply (mat4_multiply reflectionTextureMatrix pm) inverse1;
         plane1 = plane_applyMatrix4 three (n, - v3_dot (mirrorWorldPosition p) n) inverse1;
         clip0 = (case plane1 of ((nx, ny, nz), c) \<Rightarrow> (nx, ny, nz, c));
         q1 = (case clip0 of (cx, cy, cz, cw) \<Rightarrow>
                 ((sgn cx + pm ! 8) / pm ! 0, (sgn cy + pm ! 9) / pm ! 5, - 1,
                  (1 + pm ! 10) / pm ! 14));
         clip1 = v4_multiplyScalar clip0 (2 / v4_dot clip0 q1);
         pm1 = (case clip1 of (cx, cy, cz, cw) \<Rightarrow>
                  pm[2 := cx, 6 := cy, 10 := cz + 1 - CLIP_BIAS, 14 := cw]);
         r = rp_renderer p;
         currentTarget = currentRenderTarget r;
         currentXrEnabled = xr_enabled r;
         currentShadowAutoUpdate = shadowMap_autoUpdate r;
         r1 = (setRenderTarget (Some ReflectionRenderTarget)
                 (r\<lparr>xr_enabled := False, shadowMap_autoUpdate := False\<rparr>))\<lparr>depth_mask := True\<rparr>;
         r2 = (if autoClear r1 = False then clear r1 else r1);
         r3 = render SceneMaterials [] r2;
         r4 = setRenderTarget currentTarget
                (r3\<lparr>xr_enabled := currentXrEnabled,
                    shadowMap_autoUpdate := currentShadowAutoUpdate\<rparr>);
         r5 = (case cam_viewport cam of Some v \<Rightarrow> r4\<lparr>state_viewport := Some v\<rparr> | None \<Rightarrow> r4)
     in (p\<lparr>rp_renderer := r5,
           oceanRoot := Some (oroot\<lparr>visible := True\<rparr>),
           textureMatrix := textureMatrix1,
           mirrorCamera :=
             \<lparr>mc_position = view1, mc_up = up1,
              mc_fov = cam_fov cam, mc_aspect = cam_aspect cam,
              mc_near = cam_near cam, mc_far = cam_far cam,
              mc_matrixWorldInverse = inverse1, mc_projectionMatrix = pm1\<rparr>,
           mirrorPlane := plane1,
           rotationMatrix := rot,
           lookAtPosition := lookAt1,
           clipPlane := clip1,
           rp_view := view1,
           rp_target := target1,
           rp_q := q1\<rparr>,
         map_option (\<lambda>u. u\<lparr>uReflectionMap := Some ReflectionRenderTarget,
                              uReflectionMatrix := textureMatrix1\<rparr>) oceanUniforms))"

text \<open>
  \<open>PlanarReflectionPass.update\<close>: nothing happens without a visible ocean root; with the
  camera on the back side (\<open>view . normal > 0\<close>) the method returns after the first part.
\<close>

definition PlanarReflectionPass_update ::
  "three_js \<Rightarrow> reflection_pass \<times> uniforms option \<Rightarrow> reflection_pass \<times> uniforms option" where
  "PlanarReflectionPass_update three = (\<lambda>(p, oceanUniforms).
     case oceanRoot p of
       None \<Rightarrow> (p, oceanUniforms)
     | Some oroot \<Rightarrow>
         if \<not> visible oroot then (p, oceanUniforms)
         else
           let p1 = computeView oroot p in
           if v3_dot (rp_view p1) (rp_normal p1) > 0 then (p1, oceanUniforms)
           else renderReflection three oroot (p1, oceanUniforms))"

section \<open>Notions used in the statements\<close>

text \<open>
  A command has a read/write hazard when the target bound for it is one of the textures
  it samples.
\<close>

fun hazard :: "gpu_command \<Rightarrow> bool" where
  "hazard (Clear t) = False"
| "hazard (Render m inputs t) = (t \<in> Some ` set inputs)"

fun isPhasePass :: "gpu_command \<Rightarrow> bool" where
  "isPhasePass (Render MaterialPhase inputs t) = True"
| "isPhasePass c = False"

text \<open>
  The subtransform passes of a command list, and what it means for them to alternate the
  two transform framebuffers: every pass after the first samples exactly the target that the
  pass before it rendered into.
\<close>

fun isTransformPass :: "gpu_command \<Rightarrow> bool" where
  "isTransformPass (Render (MaterialOceanHorizontal n) inputs t) = True"
| "isTransformPass (Render (MaterialOceanVertical n) inputs t) = True"
| "isTransformPass c = False"

fun chained :: "gpu_command list \<Rightarrow> bool" where
  "chained (Render m inputs t # Render m' inputs' t' # cs) =
     (map Some inputs' = [t] \<and> chained (Render m' inputs' t' # cs))"
| "chained cs = True"

text \<open>The commands a call adds to the log of a renderer that held \<open>r\<close> before.\<close>

definition issued :: "renderer \<Rightarrow> renderer \<Rightarrow> gpu_command list" where
  "issued r r' = drop (length (commands r)) (commands r')"

section \<open>Rounding\<close>

text \<open>
  Rounding at a known binade: when \<open>2^e \<le> |x| < 2^(e+1)\<close> the unit in the last place is
  \<open>2^(e - p + 1)\<close>.
\<close>

lemma pow2_powr: "pow2 e = 2 powr (of_int e)"
proof (cases "0 \<le> e")
  case True
  then have "2 powr (of_int e) = (2::real) powr (real (nat e))" by simp
  also have "\<dots> = 2 ^ nat e" by (simp add: powr_realpow)
  finally show ?thesis using True by (simp add: pow2_def)
next
  case False
  then have "(2::real) powr (of_int e) = 2 powr (- real (nat (- e)))" by simp
  also have "\<dots> = 1 / 2 ^ nat (- e)" by (simp add: powr_minus powr_realpow divide_inverse)
  finally show ?thesis using False by (simp add: pow2_def)
qed

lemma pow2_pos: "0 < pow2 e"
  by (simp add: pow2_powr)

lemma floor_log2:
  assumes "pow2 e \<le> x" and "x < pow2 (e + 1)"
  shows "\<lfloor>log 2 x\<rfloor> = e"
proof -
  have x: "0 < x" using assms(1) pow2_pos [of e] by linarith
  have "of_int e \<le> log 2 x"
    using assms(1) x by (simp add: le_log_iff pow2_powr)
  moreover have "log 2 x < of_int e + 1"
    using assms(2) x by (simp add: log_less_iff pow2_powr add.commute)
  ultimately show ?thesis by (simp add: floor_eq_iff)
qed

lemma round_to_eval:
  assumes "pow2 e \<le> \<bar>x\<bar>" and "\<bar>x\<bar> < pow2 (e + 1)"
  shows "round_to p x = of_int (round_even (x / pow2 (e - int p + 1))) * pow2 (e - int p + 1)"
proof -
  have "x \<noteq> 0" using assms(1) pow2_pos [of e] by auto
  then show ?thesis
    by (simp add: round_to_def Let_def floor_log2 [OF assms])
qed

lemma double_round_0: "double_round 0 = 0"
  by (simp add: double_round_def round_to_def)

lemma double_round_three_quarters: "double_round (3 / 4) = 3 / 4"
  unfolding double_round_def
  by (subst round_to_eval [where e = "- 1"]) (simp_all add: pow2_def round_even_def)

lemma double_round_1_2: "double_round (12 / 10) = 5404319552844595 / 2 ^ 52"
  unfolding double_round_def
  by (subst round_to_eval [where e = 0]) (simp_all add: pow2_def round_even_def)

section \<open>Properties of OceanFFT construction\<close>

text \<open>
  \<open>n & (n - 1)\<close> vanishes exactly at the powers of two, first on unbounded integers, then
  for the 32-bit operator of JavaScript.
\<close>

lemma and_pred_pow2: "(2::int) ^ k AND (2 ^ k - 1) = 0"
proof -
  have "(2::int) ^ k AND mask k = take_bit k (2 ^ k)"
    by (simp add: take_bit_eq_mask)
  then show ?thesis by (simp add: mask_eq_exp_minus_1)
qed

lemma and_pred_zero_imp_pow2:
  fixes n :: int
  shows "0 < n \<Longrightarrow> n AND (n - 1) = 0 \<Longrightarrow> \<exists>k. n = 2 ^ k"
proof (induction n rule: int_bit_induct)
  case zero
  then show ?case by simp
next
  case minus
  then show ?case by simp
next
  case (even m)
  from even.prems(1) have mpos: "0 < m" by simp
  have d1: "(m * 2) div 2 = m" by simp
  have d2: "(m * 2 - 1) div 2 = m - 1" by linarith
  have "m * 2 AND (m * 2 - 1) = 2 * (m AND (m - 1))"
    by (subst and_int_rec) (simp add: d1 d2)
  with even.prems(2) have "m AND (m - 1) = 0" by simp
  with even.IH mpos obtain k where "m = 2 ^ k" by blast
  then have "m * 2 = 2 ^ Suc k" by simp
  then show ?case by blast
next
  case (odd m)
  from odd.prems(1) odd.hyps have mnn: "0 \<le> m" by linarith
  have d1: "(1 + m * 2) div 2 = m" by simp
  have "(1 + m * 2) AND (1 + m * 2 - 1) = 2 * (m AND m)"
    by (subst and_int_rec) (simp add: d1)
  with odd.prems(2) have "m = 0" by simp
  then have "1 + m * 2 = 2 ^ 0" by simp
  then show ?case by blast
qed

lemma and_pred_zero_iff_pow2:
  fixes n :: int
  assumes "0 < n"
  shows "n AND (n - 1) = 0 \<longleftrightarrow> (\<exists>k. n = 2 ^ k)"
  using assms and_pred_zero_imp_pow2 and_pred_pow2 by blast

lemma js_bitand_small:
  assumes "0 \<le> a" "a < 2 ^ 31" "0 \<le> b"
  shows "js_bitand a b = a AND b"
proof -
  have nn: "- (2 ^ 31) \<le> a AND b"
  proof -
    have "0 \<le> a AND b" using assms by simp
    moreover have "- (2 ^ 31) \<le> (0::int)" by simp
    ultimately show ?thesis by (rule order_trans [rotated])
  qed
  have "a AND b \<le> a" using assms by (simp add: AND_upper1)
  with assms have lt: "a AND b < 2 ^ 31" by linarith
  have "js_bitand a b = sint (word_of_int (a AND b) :: 32 word)"
    by (simp add: js_bitand_def word_wi_log_defs)
  also have "\<dots> = signed_take_bit 31 (a AND b)"
    by (simp add: sint_sbintrunc')
  also have "\<dots> = a AND b"
    using nn lt by (rule signed_take_bit_int_eq_self)
  finally show ?thesis .
qed

lemma ensurePowerOfTwo_cases:
  assumes "\<lfloor>v\<rfloor> < 2 ^ 31"
  shows "ensurePowerOfTwo v =
           (if \<exists>k. max 2 \<lfloor>v\<rfloor> = 2 ^ k then Inr (max 2 \<lfloor>v\<rfloor>)
            else Inl (FFT_resolution_must_be_power_of_two v))"
proof -
  define n where "n = max 2 \<lfloor>v\<rfloor>"
  have n2: "2 \<le> n" by (simp add: n_def)
  have nlt: "n < 2 ^ 31" using assms by (simp add: n_def)
  have "js_bitand n (n - 1) = n AND (n - 1)"
    using n2 nlt by (intro js_bitand_small) simp_all
  moreover have "n AND (n - 1) = 0 \<longleftrightarrow> (\<exists>k. n = 2 ^ k)"
    using n2 by (intro and_pred_zero_iff_pow2) simp
  ultimately show ?thesis
    unfolding ensurePowerOfTwo_def n_def [symmetric] Let_def by auto
qed

text \<open>
  Claim C1 says that construction throws for every domain size \<open>\<le> 0\<close>.  With the
  resolution 256 and the size \<open>-5\<close> the constructor returns an object and stores the size
  as given.
\<close>

theorem OceanFFT_nonpositive_size_constructs:
  "(case new_OceanFFT 4294967295 (\<lambda>i j. 0)
           \<lparr>opt_resolution = Some 256, opt_size = Some (- 5), opt_choppiness = None,
            opt_windSpeed = None, opt_windDirection = None, opt_useHalfFloat = None\<rparr> of
      Inl e \<Rightarrow> False
    | Inr f \<Rightarrow> resolution f = 256 \<and> size_fft f = - 5)"
  by (simp add: new_OceanFFT_def ensurePowerOfTwo_def js_bitand_def optionalParameter_def
      setWind_def Let_def Float32Array_throws_def)

text \<open>
  Claim C1 as amended: for a resolution below \<open>2^31\<close> the constructor throws exactly when
  \<open>n = max(2, floor(resolution))\<close> is not a power of two (the error carries the value
  given), or the seed array of \<open>4 n^2\<close> floats cannot be allocated (a \<open>RangeError\<close>: its
  byte length exceeds \<open>2^53 - 1\<close> or its length exceeds what the engine allocates).  The
  domain size takes no part in it: the constructor stores the size it is given (1000 when
  absent), and \<open>setSize\<close> clamps to at least 32 and does not throw.
\<close>

theorem new_OceanFFT_throws_iff:
  assumes "\<lfloor>optionalParameter (opt_resolution options) 256\<rfloor> < 2 ^ 31"
  shows "(isl (new_OceanFFT limit rnd options) \<longleftrightarrow>
            (\<not> (\<exists>k. max 2 \<lfloor>optionalParameter (opt_resolution options) 256\<rfloor> = 2 ^ k)
             \<or> 2 ^ 53 - 1
                 < 4 * (max 2 \<lfloor>optionalParameter (opt_resolution options) 256\<rfloor>
                        * max 2 \<lfloor>optionalParameter (opt_resolution options) 256\<rfloor> * 4)
             \<or> limit
                 < max 2 \<lfloor>optionalParameter (opt_resolution options) 256\<rfloor>
                   * max 2 \<lfloor>optionalParameter (opt_resolution options) 256\<rfloor> * 4))
       \<and> (case new_OceanFFT limit rnd options of
             Inl e \<Rightarrow>
               e = (if \<exists>k. max 2 \<lfloor>optionalParameter (opt_resolution options) 256\<rfloor> = 2 ^ k
                    then RangeError_invalid_typed_array_length
                    else FFT_resolution_must_be_power_of_two
                           (optionalParameter (opt_resolution options) 256))
           | Inr f \<Rightarrow>
               resolution f = max 2 \<lfloor>optionalParameter (opt_resolution options) 256\<rfloor>
               \<and> size_fft f = optionalParameter (opt_size options) 1000
               \<and> size_fft (setSize sz f) = max 32 sz)"
  using ensurePowerOfTwo_cases [OF assms]
  by (simp add: new_OceanFFT_def setWind_def setSize_def Let_def Float32Array_throws_def)

text \<open>
  The amended claim at the resolution 300, which is rejected as not a power of two, and at
  the resolution \<open>2^30\<close>, a power of two whose seed array cannot be allocated.
\<close>

theorem new_OceanFFT_throws_iff_witness:
  "new_OceanFFT 4294967295 (\<lambda>i j. 0)
       \<lparr>opt_resolution = Some 300, opt_size = Some 980, opt_choppiness = None,
        opt_windSpeed = None, opt_windDirection = None, opt_useHalfFloat = None\<rparr>
     = Inl (FFT_resolution_must_be_power_of_two 300)
   \<and> \<not> (\<exists>k. (300::int) = 2 ^ k)
   \<and> new_OceanFFT 4294967295 (\<lambda>i j. 0)
       \<lparr>opt_resolution = Some 1073741824, opt_size = Some 980, opt_choppiness = None,
        opt_windSpeed = None, opt_windDirection = None, opt_useHalfFloat = None\<rparr>
     = Inl RangeError_invalid_typed_array_length"
proof -
  let ?o = "\<lparr>opt_resolution = Some 300, opt_size = Some 980, opt_choppiness = None,
        opt_windSpeed = None, opt_windDirection = None, opt_useHalfFloat = None\<rparr>"
  let ?b = "\<lparr>opt_resolution = Some 1073741824, opt_size = Some 980, opt_choppiness = None,
        opt_windSpeed = None, opt_windDirection = None, opt_useHalfFloat = None\<rparr>"
  have ro: "optionalParameter (opt_resolution ?o) 256 = 300"
    by (simp add: optionalParameter_def)
  have rb: "optionalParameter (opt_resolution ?b) 256 = 1073741824"
    by (simp add: optionalParameter_def)
  have mo: "max 2 \<lfloor>300::real\<rfloor> = (300::int)" by simp
  have mb: "max 2 \<lfloor>1073741824::real\<rfloor> = (1073741824::int)" by simp
  have h: "\<lfloor>optionalParameter (opt_resolution ?o) 256\<rfloor> < (2::int) ^ 31"
    unfolding ro by simp
  have hb: "\<lfloor>optionalParameter (opt_resolution ?b) 256\<rfloor> < (2::int) ^ 31"
    unfolding rb by simp
  have c: "new_OceanFFT 4294967295 (\<lambda>i j. 0) ?o = Inl (FFT_resolution_must_be_power_of_two 300)"
    by (simp add: new_OceanFFT_def ensurePowerOfTwo_def js_bitand_def optionalParameter_def)
  note to = new_OceanFFT_throws_iff [where options = ?o and rnd = "\<lambda>i j. 0"
      and limit = 4294967295, OF h, unfolded ro mo]
  have n: "\<not> (\<exists>k. (300::int) = 2 ^ k)"
  proof
    assume e: "\<exists>k. (300::int) = 2 ^ k"
    from to [THEN conjunct2] have "FFT_resolution_must_be_power_of_two 300
        = (if \<exists>k. (300::int) = 2 ^ k then RangeError_invalid_typed_array_length
           else FFT_resolution_must_be_power_of_two 300)"
      unfolding c by (simp only: sum.case)
    with e show False by (simp only: if_True error.distinct)
  qed
  have p: "\<exists>k. (1073741824::int) = 2 ^ k"
    by (rule exI [of _ 30]) simp
  note tb = new_OceanFFT_throws_iff [where options = ?b and rnd = "\<lambda>i j. 0"
      and limit = 4294967295, OF hb, unfolded rb mb]
  have big: "(4294967295::int) < 1073741824 * 1073741824 * 4" by simp
  have i: "isl (new_OceanFFT 4294967295 (\<lambda>i j. 0) ?b)"
    using tb [THEN conjunct1] big by blast
  then obtain e where e: "new_OceanFFT 4294967295 (\<lambda>i j. 0) ?b = Inl e"
    by (cases "new_OceanFFT 4294967295 (\<lambda>i j. 0) ?b") simp_all
  from tb [THEN conjunct2] have "e = (if \<exists>k. (1073741824::int) = 2 ^ k
      then RangeError_invalid_typed_array_length
      else FFT_resolution_must_be_power_of_two 1073741824)"
    unfolding e by (simp only: sum.case)
  with p have "e = RangeError_invalid_typed_array_length" by (simp only: if_True)
  with e have d: "new_OceanFFT 4294967295 (\<lambda>i j. 0) ?b = Inl RangeError_invalid_typed_array_length"
    by simp
  from c n d show ?thesis by blast
qed

section \<open>Properties of the LOD grid\<close>

text \<open>Every ring adds four meshes, so a build that passes the check adds \<open>1 + 4 (L - 1)\<close>.\<close>

lemma meshes_addRing: "length (meshes (addRing lv i g)) = length (meshes g) + 4"
  by (simp add: addRing_def addMesh_def Let_def)

lemma meshes_fold_addRing:
  "length (meshes (fold (addRing lv) is g)) = length (meshes g) + 4 * length is"
  by (induction "is" arbitrary: g) (simp_all add: meshes_addRing)

lemma build_short:
  "(case levels g of None \<Rightarrow> True | Some lv \<Rightarrow> length lv < 2)
   \<Longrightarrow> build g = (g, Some Ocean_LOD_requires_at_least_2_level_sizes)"
  by (simp add: build_def split: option.splits)

lemma build_long:
  assumes "levels g = Some lv" "2 \<le> length lv"
  shows "snd (build g) = None"
    and "length (meshes (fst (build g))) = length (meshes g) + 1 + 4 * (length lv - 1)"
  using assms by (simp_all add: build_def Let_def meshes_fold_addRing addMesh_def)

text \<open>
  Claim C2 says that construction throws for every level-size array that is not strictly
  increasing.  The array \<open>[512, 256]\<close> is built: the grid has its centre patch and the four
  strips of one ring.
\<close>

theorem not_increasing_levels_build:
  "(case new_OceanLODGrid 7 (Some [512, 256]) (Some 1) (Some (1 / 2)) of
      Inl e \<Rightarrow> False
    | Inr g \<Rightarrow> length (meshes g) = 5 \<and> levels g = Some [512, 256])"
  by (simp add: new_OceanLODGrid_def build_def optionalParameter_def Let_def
      addRing_def addMesh_def)

text \<open>
  Claim C2 as amended: \<open>#build\<close> throws exactly when the level sizes are not an array or
  have fewer than 2 entries, and then it throws before any patch is created (the grid is as
  it was).  Every array of 2 or more entries is built, increasing or not, into
  \<open>1 + 4 (L - 1)\<close> patches.  The constructor throws in the same cases.
\<close>

theorem build_throws_iff:
  "(case build g of
      (g', Some e) \<Rightarrow>
        (case levels g of None \<Rightarrow> True | Some lv \<Rightarrow> length lv < 2)
        \<and> g' = g \<and> e = Ocean_LOD_requires_at_least_2_level_sizes
    | (g', None) \<Rightarrow>
        (case levels g of None \<Rightarrow> False
         | Some lv \<Rightarrow> 2 \<le> length lv
             \<and> length (meshes g') = length (meshes g) + 1 + 4 * (length lv - 1)))
   \<and> (case new_OceanLODGrid mat lvs cell ov of
        Inl e \<Rightarrow>
          (case lvs of None \<Rightarrow> True | Some lv \<Rightarrow> length lv < 2)
          \<and> e = Ocean_LOD_requires_at_least_2_level_sizes
      | Inr g' \<Rightarrow>
          (case lvs of None \<Rightarrow> False
           | Some lv \<Rightarrow> 2 \<le> length lv \<and> length (meshes g') = 1 + 4 * (length lv - 1)))"
proof -
  have a: "(case build g of
      (g', Some e) \<Rightarrow>
        (case levels g of None \<Rightarrow> True | Some lv \<Rightarrow> length lv < 2)
        \<and> g' = g \<and> e = Ocean_LOD_requires_at_least_2_level_sizes
    | (g', None) \<Rightarrow>
        (case levels g of None \<Rightarrow> False
         | Some lv \<Rightarrow> 2 \<le> length lv
             \<and> length (meshes g') = length (meshes g) + 1 + 4 * (length lv - 1)))" for g
  proof (cases "case levels g of None \<Rightarrow> True | Some lv \<Rightarrow> length lv < 2")
    case True
    then show ?thesis by (simp add: build_short)
  next
    case False
    then obtain lv where lv: "levels g = Some lv" "2 \<le> length lv"
      by (auto split: option.splits)
    from build_long [OF lv] lv show ?thesis
      by (cases "build g") (auto split: option.splits)
  qed
  let ?g0 = "\<lparr>grid_material = mat, levels = lvs, baseCellSize = optionalParameter cell 1,
             ringOverlap = optionalParameter ov (1 / 2), snapSize = optionalParameter cell 1,
             group_position = (0, 0, 0), group_scale = (1, 1, 1), meshes = []\<rparr>"
  from a [of ?g0] have b: "(case new_OceanLODGrid mat lvs cell ov of
        Inl e \<Rightarrow>
          (case lvs of None \<Rightarrow> True | Some lv \<Rightarrow> length lv < 2)
          \<and> e = Ocean_LOD_requires_at_least_2_level_sizes
      | Inr g' \<Rightarrow>
          (case lvs of None \<Rightarrow> False
           | Some lv \<Rightarrow> 2 \<le> length lv \<and> length (meshes g') = 1 + 4 * (length lv - 1)))"
    unfolding new_OceanLODGrid_def
    by (cases "build ?g0") (auto split: option.splits)
  from a [of g] b show ?thesis by blast
qed


text \<open>The amended claim on a one-entry array, on a missing array and on three levels.\<close>

theorem build_throws_iff_witness:
  "new_OceanLODGrid 7 (Some [256]) (Some 1) (Some (1 / 2))
     = Inl Ocean_LOD_requires_at_least_2_level_sizes
   \<and> new_OceanLODGrid 7 None (Some 1) (Some (1 / 2))
     = Inl Ocean_LOD_requires_at_least_2_level_sizes
   \<and> (case new_OceanLODGrid 7 (Some [256, 512, 1024]) (Some 1) (Some (1 / 2)) of
        Inl e \<Rightarrow> False | Inr g \<Rightarrow> length (meshes g) = 9)"
proof -
  have a: "new_OceanLODGrid 7 (Some [256]) (Some 1) (Some (1 / 2))
     = Inl Ocean_LOD_requires_at_least_2_level_sizes"
    using build_throws_iff [where mat = 7 and lvs = "Some [256]" and cell = "Some 1"
        and ov = "Some (1 / 2)", THEN conjunct2]
    by (simp split: sum.splits)
  have b: "new_OceanLODGrid 7 None (Some 1) (Some (1 / 2))
     = Inl Ocean_LOD_requires_at_least_2_level_sizes"
    using build_throws_iff [where mat = 7 and lvs = None and cell = "Some 1"
        and ov = "Some (1 / 2)", THEN conjunct2]
    by (simp split: sum.splits)
  have c: "(case new_OceanLODGrid 7 (Some [256, 512, 1024]) (Some 1) (Some (1 / 2)) of
        Inl e \<Rightarrow> False | Inr g \<Rightarrow> length (meshes g) = 9)"
    using build_throws_iff [where mat = 7 and lvs = "Some [256, 512, 1024]" and cell = "Some 1"
        and ov = "Some (1 / 2)", THEN conjunct2]
    by (simp split: sum.splits)
  from a b c show ?thesis by blast
qed

text \<open>
  Claim C3 says that \<open>update\<close> moves the origin to the nearest multiple of the cell size.
  With the cell size 1 and the camera at \<open>x = 0.75\<close> the origin is put at 0, while the
  multiple 1 is nearer.
\<close>

theorem OceanLODGrid_update_floor_not_nearest:
  "(case new_OceanLODGrid 7 (Some [256, 512]) (Some 1) (Some (1 / 2)) of
      Inl e \<Rightarrow> False
    | Inr g \<Rightarrow>
        snapSize g = 1
        \<and> fst (group_position (OceanLODGrid_update (3 / 4, 0, 0) g)) = 0
        \<and> \<bar>3 / 4 - 1 * snapSize g\<bar>
            < \<bar>3 / 4 - fst (group_position (OceanLODGrid_update (3 / 4, 0, 0) g))\<bar>)"
  by (simp add: new_OceanLODGrid_def build_def optionalParameter_def Let_def
      addRing_def addMesh_def OceanLODGrid_update_def snap_def
      double_round_three_quarters double_round_0)

text \<open>
  Claim C3 as amended: for a cell size other than 0, \<open>update\<close> sets the \<open>x\<close> and \<open>z\<close>
  of the group's origin to \<open>Math.floor(p / cell) * cell\<close> as doubles compute it: the quotient is rounded to a double,
  floored, and the product with the cell size is rounded again.  This is a snap by floor,
  not to the nearest multiple; the height of the origin and everything else in the grid stay
  as they were.
\<close>

theorem OceanLODGrid_update_floor_snap:
  assumes "snapSize g \<noteq> 0"
  shows "(case (group_position (OceanLODGrid_update (cx, cy, cz) g), group_position g) of
      ((x', y', z'), (x, y, z)) \<Rightarrow>
        x' = double_round (of_int \<lfloor>double_round (cx / snapSize g)\<rfloor> * snapSize g)
        \<and> z' = double_round (of_int \<lfloor>double_round (cz / snapSize g)\<rfloor> * snapSize g)
        \<and> y' = y)
   \<and> OceanLODGrid_update (cx, cy, cz) g
       = g\<lparr>group_position := group_position (OceanLODGrid_update (cx, cy, cz) g)\<rparr>"
  by (cases "group_position g") (simp add: OceanLODGrid_update_def snap_def)

text \<open>
  The snap at the cell size 1.2 of the balanced preset and the camera coordinate
  \<open>22.799999999999997\<close> (the double \<open>1604407367250739 / 2^46\<close>): the quotient rounds to 19
  and the product to the double \<open>22.8\<close>, which is greater than the coordinate.
\<close>

lemma snap_above_camera:
  "snap (1604407367250739 / 2 ^ 46) (double_round (12 / 10)) = 6417629469002957 / 2 ^ 48"
  "(1604407367250739 / 2 ^ 46 :: real) < 6417629469002957 / 2 ^ 48"
proof -
  have q: "double_round (1604407367250739 / 2 ^ 46 / (5404319552844595 / 2 ^ 52)) = 19"
    unfolding double_round_def
    by (subst round_to_eval [where e = 4]) (simp_all add: pow2_def round_even_def)
  have m: "double_round (19 * (5404319552844595 / 2 ^ 52)) = 6417629469002957 / 2 ^ 48"
    unfolding double_round_def
    by (subst round_to_eval [where e = 4]) (simp_all add: pow2_def round_even_def)
  show "snap (1604407367250739 / 2 ^ 46) (double_round (12 / 10)) = 6417629469002957 / 2 ^ 48"
    unfolding snap_def double_round_1_2 q using m by simp
  show "(1604407367250739 / 2 ^ 46 :: real) < 6417629469002957 / 2 ^ 48" by simp
qed

text \<open>
  The amended claim on the grid built with the cell size 1.2 and the camera at
  \<open>(22.799999999999997, 3, 0)\<close>.
\<close>

theorem OceanLODGrid_update_floor_snap_witness:
  "(case new_OceanLODGrid 7 (Some [256, 512]) (Some (double_round (12 / 10))) (Some (1 / 2)) of
      Inl e \<Rightarrow> False
    | Inr g \<Rightarrow>
        snapSize g \<noteq> 0
        \<and> group_position (OceanLODGrid_update (1604407367250739 / 2 ^ 46, 3, 0) g)
          = (6417629469002957 / 2 ^ 48, 0, 0))"
proof -
  let ?r = "new_OceanLODGrid 7 (Some [256, 512]) (Some (double_round (12 / 10))) (Some (1 / 2))"
  obtain g where g: "?r = Inr g" and s: "snapSize g = double_round (12 / 10)"
    and p: "group_position g = (0, 0, 0)"
    by (simp add: new_OceanLODGrid_def build_def optionalParameter_def Let_def
        addRing_def addMesh_def)
  have h: "snapSize g \<noteq> 0"
    unfolding s double_round_1_2 by simp
  have z: "double_round (of_int \<lfloor>double_round (0 / double_round (12 / 10))\<rfloor>
             * double_round (12 / 10)) = 0"
    by (simp add: double_round_0)
  have x: "double_round (of_int \<lfloor>double_round (1604407367250739 / 2 ^ 46 / double_round (12 / 10))\<rfloor>
             * double_round (12 / 10)) = 6417629469002957 / 2 ^ 48"
    using snap_above_camera(1) by (simp only: snap_def)
  have "group_position (OceanLODGrid_update (1604407367250739 / 2 ^ 46, 3, 0) g)
          = (6417629469002957 / 2 ^ 48, 0, 0)"
    using OceanLODGrid_update_floor_snap [where g = g and cx = "1604407367250739 / 2 ^ 46"
        and cy = 3 and cz = 0, OF h, THEN conjunct1]
    unfolding s p x z
    by (cases "group_position (OceanLODGrid_update (1604407367250739 / 2 ^ 46, 3, 0) g)") simp
  with g h show ?thesis by simp
qed

text \<open>
  Claim C10: \<open>setLodScale(s)\<close> sets the group's scale to \<open>(c, 1, c)\<close> where \<open>c\<close> is \<open>s\<close>
  clamped to \<open>[0.5, 2.5]\<close>: the clamped value goes to \<open>x\<close> and \<open>z\<close>, the vertical scale is
  exactly 1 whatever \<open>s\<close> is, and nothing else in the grid changes.
\<close>

theorem setLodScale_clamps:
  "group_scale (setLodScale s g)
     = ((if s < 1 / 2 then 1 / 2 else if 5 / 2 < s then 5 / 2 else s), 1,
        (if s < 1 / 2 then 1 / 2 else if 5 / 2 < s then 5 / 2 else s))
   \<and> 1 / 2 \<le> fst (group_scale (setLodScale s g))
   \<and> fst (group_scale (setLodScale s g)) \<le> 5 / 2
   \<and> fst (snd (group_scale (setLodScale s g))) = 1
   \<and> setLodScale s g = g\<lparr>group_scale := group_scale (setLodScale s g)\<rparr>"
  by (simp add: setLodScale_def Let_def min_def max_def)

text \<open>Claim C10 at a scale above, below and inside the interval.\<close>

theorem setLodScale_clamps_witness:
  "(case new_OceanLODGrid 7 (Some [256, 512]) (Some 1) (Some (1 / 2)) of
      Inl e \<Rightarrow> False
    | Inr g \<Rightarrow>
        group_scale (setLodScale 3 g) = (5 / 2, 1, 5 / 2)
        \<and> group_scale (setLodScale (1 / 10) g) = (1 / 2, 1, 1 / 2)
        \<and> group_scale (setLodScale (18 / 10) g) = (18 / 10, 1, 18 / 10))"
proof -
  obtain g where g: "new_OceanLODGrid 7 (Some [256, 512]) (Some 1) (Some (1 / 2)) = Inr g"
    by (simp add: new_OceanLODGrid_def build_def optionalParameter_def Let_def)
  have a: "group_scale (setLodScale 3 g) = (5 / 2, 1, 5 / 2)"
    using setLodScale_clamps [of 3 g] by simp
  have b: "group_scale (setLodScale (1 / 10) g) = (1 / 2, 1, 1 / 2)"
    using setLodScale_clamps [of "1 / 10" g] by simp
  have c: "group_scale (setLodScale (18 / 10) g) = (18 / 10, 1, 18 / 10)"
    using setLodScale_clamps [of "18 / 10" g] by simp
  from g a b c show ?thesis by simp
qed

section \<open>Properties of OceanFFT.update\<close>



text \<open>What one update does to the \<open>OceanFFT\<close> object.\<close>

lemma fst_renderWavePhase:
  "fst (renderWavePhase (f, r)) =
     (let out = phase_shader (of_int (resolution f)) (size_fft f) (deltaTime f) (phaseSource f) in
      if pingPhase f then f\<lparr>initialized := True, pongPhaseFramebuffer := out, pingPhase := False\<rparr>
      else f\<lparr>initialized := True, pingPhaseFramebuffer := out, pingPhase := True\<rparr>)"
  by (simp add: renderWavePhase_def Let_def)

lemma fst_renderSpectrum: "fst (renderSpectrum s) = fst s"
  by (cases s) (simp add: renderSpectrum_def)

lemma fst_renderSpectrumFFT: "fst (renderSpectrumFFT s) = fst s"
  by (cases s) (simp add: renderSpectrumFFT_def Let_def)

lemma fst_renderNormalMap: "fst (renderNormalMap s) = fst s"
  by (cases s) (simp add: renderNormalMap_def)

lemma fst_OceanFFT_update:
  "fst (OceanFFT_update dt (f, r)) =
     (let g = f\<lparr>deltaTime := min (1 / 10) (max (1 / 240) dt), needsSpectrumInit := False\<rparr>;
          out = phase_shader (of_int (resolution f)) (size_fft f)
                  (min (1 / 10) (max (1 / 240) dt)) (phaseSource f)
      in if pingPhase f then g\<lparr>initialized := True, pongPhaseFramebuffer := out, pingPhase := False\<rparr>
         else g\<lparr>initialized := True, pingPhaseFramebuffer := out, pingPhase := True\<rparr>)"
proof (cases "needsSpectrumInit f")
  case True
  then show ?thesis
    by (simp add: OceanFFT_update_def Let_def renderInitialSpectrum_def fst_renderNormalMap
        fst_renderSpectrumFFT fst_renderSpectrum fst_renderWavePhase phaseSource_def)
next
  case False
  then have "f\<lparr>needsSpectrumInit := False\<rparr> = f" by simp
  then have e: "f\<lparr>deltaTime := d, needsSpectrumInit := False\<rparr> = f\<lparr>deltaTime := d\<rparr>" for d
    by (metis ocean_fft.update_convs(6) ocean_fft.surjective ocean_fft.update_convs(9))
  from False show ?thesis
    by (simp add: OceanFFT_update_def Let_def fst_renderNormalMap
        fst_renderSpectrumFFT fst_renderSpectrum fst_renderWavePhase phaseSource_def e)
qed

lemma phaseSource_OceanFFT_update:
  "phaseSource (fst (OceanFFT_update dt (f, r))) =
     phase_shader (of_int (resolution f)) (size_fft f) (min (1 / 10) (max (1 / 240) dt))
       (phaseSource f)"
  by (simp add: fst_OceanFFT_update Let_def phaseSource_def)

text \<open>
  Claim C7: for every \<open>deltaTime\<close>, \<open>update\<close> stores the value clamped to
  \<open>[1/240, 0.1]\<close> (values below become \<open>1/240\<close>, values above \<open>0.1\<close>), and the phase pass
  of that update integrates with the clamped value.  \<open>OceanFFT_update\<close> is a total function
  with no error result: no \<open>deltaTime\<close> is rejected.
\<close>

theorem OceanFFT_update_clamps_deltaTime:
  "deltaTime (fst (OceanFFT_update dt (f, r)))
     = (if dt < 1 / 240 then 1 / 240 else if 1 / 10 < dt then 1 / 10 else dt)
   \<and> 1 / 240 \<le> deltaTime (fst (OceanFFT_update dt (f, r)))
   \<and> deltaTime (fst (OceanFFT_update dt (f, r))) \<le> 1 / 10
   \<and> phaseSource (fst (OceanFFT_update dt (f, r)))
       = phase_shader (of_int (resolution f)) (size_fft f)
           (deltaTime (fst (OceanFFT_update dt (f, r)))) (phaseSource f)"
proof -
  have d: "deltaTime (fst (OceanFFT_update dt (f, r))) = min (1 / 10) (max (1 / 240) dt)"
    by (simp add: fst_OceanFFT_update Let_def)
  show ?thesis
    unfolding d phaseSource_OceanFFT_update by (simp add: min_def max_def)
qed

text \<open>Claim C7 on a fresh simulation with the steps 3, 0 and 1/60.\<close>

theorem OceanFFT_update_clamps_deltaTime_witness:
  "(case new_OceanFFT 4294967295 (\<lambda>i j. 1 / 2)
           \<lparr>opt_resolution = Some 256, opt_size = Some 980, opt_choppiness = None,
            opt_windSpeed = None, opt_windDirection = None, opt_useHalfFloat = None\<rparr> of
      Inl e \<Rightarrow> False
    | Inr f0 \<Rightarrow>
        deltaTime (fst (OceanFFT_update 3
          (f0, \<lparr>currentRenderTarget = None, commands = [], xr_enabled = False,
                shadowMap_autoUpdate = True, autoClear = True, depth_mask = True,
                state_viewport = None\<rparr>))) = 1 / 10
        \<and> deltaTime (fst (OceanFFT_update 0
          (f0, \<lparr>currentRenderTarget = None, commands = [], xr_enabled = False,
                shadowMap_autoUpdate = True, autoClear = True, depth_mask = True,
                state_viewport = None\<rparr>))) = 1 / 240
        \<and> deltaTime (fst (OceanFFT_update (1 / 60)
          (f0, \<lparr>currentRenderTarget = None, commands = [], xr_enabled = False,
                shadowMap_autoUpdate = True, autoClear = True, depth_mask = True,
                state_viewport = None\<rparr>))) = 1 / 60)"
proof -
  let ?o = "\<lparr>opt_resolution = Some 256, opt_size = Some 980, opt_choppiness = None,
            opt_windSpeed = None, opt_windDirection = None, opt_useHalfFloat = None\<rparr>"
  let ?r = "\<lparr>currentRenderTarget = None, commands = [], xr_enabled = False,
              shadowMap_autoUpdate = True, autoClear = True, depth_mask = True,
              state_viewport = None\<rparr>"
  obtain f0 where f0: "new_OceanFFT 4294967295 (\<lambda>i j. 1 / 2) ?o = Inr f0"
    by (simp add: new_OceanFFT_def ensurePowerOfTwo_def js_bitand_def optionalParameter_def
        Float32Array_throws_def)
  have a: "deltaTime (fst (OceanFFT_update 3 (f0, ?r))) = 1 / 10"
    using OceanFFT_update_clamps_deltaTime [of 3 f0 ?r] by simp
  have b: "deltaTime (fst (OceanFFT_update 0 (f0, ?r))) = 1 / 240"
    using OceanFFT_update_clamps_deltaTime [of 0 f0 ?r] by simp
  have c: "deltaTime (fst (OceanFFT_update (1 / 60) (f0, ?r))) = 1 / 60"
    using OceanFFT_update_clamps_deltaTime [of "1 / 60" f0 ?r] by simp
  from f0 a b c show ?thesis by simp
qed









text \<open>The commands each pass appends to the log.\<close>

lemma commands_render: "commands (render m ins r) = commands r @ [Render m ins (currentRenderTarget r)]"
  by (simp add: render_def)

lemma commands_clear: "commands (clear r) = commands r @ [Clear (currentRenderTarget r)]"
  by (simp add: clear_def)

lemma commands_setRenderTarget: "commands (setRenderTarget t r) = commands r"
  by (simp add: setRenderTarget_def)

lemma target_setRenderTarget: "currentRenderTarget (setRenderTarget t r) = t"
  by (simp add: setRenderTarget_def)

lemma target_clear: "currentRenderTarget (clear r) = currentRenderTarget r"
  by (simp add: clear_def)

lemmas renderer_simps =
  commands_render commands_clear commands_setRenderTarget target_setRenderTarget target_clear

text \<open>
  Every subtransform pass appends one command, which has no hazard and is not a phase
  pass.
\<close>

lemma horizontalPass_commands:
  "\<exists>c. commands (horizontalPass n i r) = commands r @ [c]
       \<and> \<not> hazard c \<and> \<not> isPhasePass c"
  by (simp add: horizontalPass_def Let_def renderer_simps)

lemma verticalPass_commands:
  "\<exists>c. commands (verticalPass n i r) = commands r @ [c]
       \<and> \<not> hazard c \<and> \<not> isPhasePass c"
  by (simp add: verticalPass_def Let_def renderer_simps)

lemma fold_pass_commands:
  assumes step: "\<And>i r. \<exists>c. commands (pass i r) = commands r @ [c]
                   \<and> \<not> hazard c \<and> \<not> isPhasePass c"
  shows "\<exists>cs. commands (fold pass is r) = commands r @ cs
          \<and> list_all (\<lambda>c. \<not> hazard c \<and> \<not> isPhasePass c) cs"
proof (induction "is" arbitrary: r)
  case Nil
  show ?case by simp
next
  case (Cons i "is")
  from step [of i r] obtain c where c: "commands (pass i r) = commands r @ [c]"
    "\<not> hazard c" "\<not> isPhasePass c" by blast
  from Cons.IH [of "pass i r"] obtain cs where
    cs: "commands (fold pass is (pass i r)) = commands (pass i r) @ cs"
    "list_all (\<lambda>c. \<not> hazard c \<and> \<not> isPhasePass c) cs" by blast
  have "commands (fold pass (i # is) r) = commands r @ (c # cs)"
    using c(1) cs(1) by simp
  moreover have "list_all (\<lambda>c. \<not> hazard c \<and> \<not> isPhasePass c) (c # cs)"
    using c cs(2) by simp
  ultimately show ?case by blast
qed

lemma renderSpectrumFFT_commands:
  "\<exists>cs. commands (snd (renderSpectrumFFT (f, r))) = commands r @ cs
        \<and> list_all (\<lambda>c. \<not> hazard c \<and> \<not> isPhasePass c) cs"
proof -
  let ?n = "log2 (nat (resolution f))"
  from fold_pass_commands [of "horizontalPass ?n", OF horizontalPass_commands]
  obtain hs where hs: "commands (fold (horizontalPass ?n) [0..<?n] r) = commands r @ hs"
    "list_all (\<lambda>c. \<not> hazard c \<and> \<not> isPhasePass c) hs" by blast
  from fold_pass_commands [of "verticalPass ?n", OF verticalPass_commands]
  obtain vs where vs: "commands (fold (verticalPass ?n) [?n..<?n * 2]
                          (fold (horizontalPass ?n) [0..<?n] r))
                        = commands (fold (horizontalPass ?n) [0..<?n] r) @ vs"
    "list_all (\<lambda>c. \<not> hazard c \<and> \<not> isPhasePass c) vs" by blast
  have "commands (snd (renderSpectrumFFT (f, r))) = commands r @ (hs @ vs)"
    using hs(1) vs(1) by (simp add: renderSpectrumFFT_def Let_def)
  moreover have "list_all (\<lambda>c. \<not> hazard c \<and> \<not> isPhasePass c) (hs @ vs)"
    using hs(2) vs(2) by simp
  ultimately show ?thesis by blast
qed

lemma renderInitialSpectrum_commands:
  "\<exists>cs. commands (snd (if needsSpectrumInit f then renderInitialSpectrum (f, r) else (f, r)))
          = commands r @ cs
        \<and> list_all (\<lambda>c. \<not> hazard c \<and> \<not> isPhasePass c) cs"
  by (simp add: renderInitialSpectrum_def renderer_simps)

lemma renderWavePhase_commands:
  "commands (snd (renderWavePhase (f, r)))
     = commands r @ [Render MaterialPhase [phaseSourceBuffer f]
                      (Some (if pingPhase f then PongPhaseFramebuffer else PingPhaseFramebuffer))]"
  by (simp add: renderWavePhase_def Let_def renderer_simps)

lemma renderSpectrum_commands:
  "\<exists>c. commands (snd (renderSpectrum (f, r))) = commands r @ [c]
        \<and> \<not> hazard c \<and> \<not> isPhasePass c"
  by (simp add: renderSpectrum_def renderer_simps)

lemma renderNormalMap_commands:
  "\<exists>cs. commands (snd (renderNormalMap (f, r))) = commands r @ cs
        \<and> list_all (\<lambda>c. \<not> hazard c \<and> \<not> isPhasePass c) cs"
  by (simp add: renderNormalMap_def renderer_simps)

lemma phase_pass_no_hazard:
  "\<not> hazard (Render MaterialPhase [phaseSourceBuffer f]
       (Some (if pingPhase f then PongPhaseFramebuffer else PingPhaseFramebuffer)))"
  by (simp add: phaseSourceBuffer_def)

lemma OceanFFT_update_commands:
  "\<exists>as bs. issued r (snd (OceanFFT_update dt (f, r)))
       = as @ [Render MaterialPhase [phaseSourceBuffer f]
                 (Some (if pingPhase f then PongPhaseFramebuffer else PingPhaseFramebuffer))] @ bs
     \<and> list_all (\<lambda>c. \<not> hazard c \<and> \<not> isPhasePass c) as
     \<and> list_all (\<lambda>c. \<not> hazard c \<and> \<not> isPhasePass c) bs"
proof -
  let ?Q = "list_all (\<lambda>c. \<not> hazard c \<and> \<not> isPhasePass c)"
  let ?f0 = "f\<lparr>deltaTime := min (1 / 10) (max (1 / 240) dt)\<rparr>"
  let ?s1 = "if needsSpectrumInit ?f0 then renderInitialSpectrum (?f0, r) else (?f0, r)"
  obtain f1 r1 where s1: "?s1 = (f1, r1)" by (cases ?s1)
  obtain f2 r2 where s2: "renderWavePhase (f1, r1) = (f2, r2)" by (cases "renderWavePhase (f1, r1)")
  obtain f3 r3 where s3: "renderSpectrum (f2, r2) = (f3, r3)" by (cases "renderSpectrum (f2, r2)")
  obtain f4 r4 where s4: "renderSpectrumFFT (f3, r3) = (f4, r4)" by (cases "renderSpectrumFFT (f3, r3)")
  obtain f5 r5 where s5: "renderNormalMap (f4, r4) = (f5, r5)" by (cases "renderNormalMap (f4, r4)")
  have f1: "phaseSourceBuffer f1 = phaseSourceBuffer f" "pingPhase f1 = pingPhase f"
    using s1 by (auto simp: renderInitialSpectrum_def phaseSourceBuffer_def split: if_splits)
  from renderInitialSpectrum_commands [of ?f0 r] s1
  obtain as where as: "commands r1 = commands r @ as" "?Q as" by auto
  from renderWavePhase_commands [of f1 r1] s2 f1
  have p: "commands r2 = commands r1 @ [Render MaterialPhase [phaseSourceBuffer f]
             (Some (if pingPhase f then PongPhaseFramebuffer else PingPhaseFramebuffer))]"
    by simp
  from renderSpectrum_commands [of f2 r2] s3
  obtain c where c: "commands r3 = commands r2 @ [c]" "?Q [c]" by auto
  from renderSpectrumFFT_commands [of f3 r3] s4
  obtain ts where ts: "commands r4 = commands r3 @ ts" "?Q ts" by auto
  from renderNormalMap_commands [of f4 r4] s5
  obtain ns where ns: "commands r5 = commands r4 @ ns" "?Q ns" by auto
  have u: "snd (OceanFFT_update dt (f, r)) = setRenderTarget (currentRenderTarget r) r5"
    using s1 s2 s3 s4 s5 by (simp add: OceanFFT_update_def Let_def)
  have "issued r (snd (OceanFFT_update dt (f, r)))
      = as @ [Render MaterialPhase [phaseSourceBuffer f]
                 (Some (if pingPhase f then PongPhaseFramebuffer else PingPhaseFramebuffer))]
           @ (c # ts @ ns)"
    unfolding u issued_def commands_setRenderTarget ns(1) ts(1) c(1) p as(1) by simp
  moreover have "?Q (c # ts @ ns)" using c(2) ts(2) ns(2) by simp
  ultimately show ?thesis using as(2) by blast
qed

text \<open>
  In every update no command renders into a texture it samples; the one phase pass samples
  the current phase texture and renders into the phase framebuffer that \<open>pingPhase\<close> does
  not select, and the flag flips once, so the framebuffer just written is sampled next.
\<close>

lemma OceanFFT_update_no_hazard:
  "list_all (\<lambda>c. \<not> hazard c) (issued r (snd (OceanFFT_update dt (f, r))))
   \<and> filter isPhasePass (issued r (snd (OceanFFT_update dt (f, r))))
       = [Render MaterialPhase [phaseSourceBuffer f]
            (Some (if pingPhase f then PongPhaseFramebuffer else PingPhaseFramebuffer))]
   \<and> pingPhase (fst (OceanFFT_update dt (f, r))) = (\<not> pingPhase f)
   \<and> phaseSourceBuffer (fst (OceanFFT_update dt (f, r)))
       = (if pingPhase f then PongPhaseFramebuffer else PingPhaseFramebuffer)"
proof -
  let ?p = "Render MaterialPhase [phaseSourceBuffer f]
              (Some (if pingPhase f then PongPhaseFramebuffer else PingPhaseFramebuffer))"
  let ?Q = "\<lambda>c. \<not> hazard c \<and> \<not> isPhasePass c"
  from OceanFFT_update_commands [of r dt f] obtain as bs where
    i: "issued r (snd (OceanFFT_update dt (f, r))) = as @ [?p] @ bs"
    and as: "list_all ?Q as" and bs: "list_all ?Q bs" by blast
  have nh: "\<not> hazard ?p" by (rule phase_pass_no_hazard)
  have a1: "list_all (\<lambda>c. \<not> hazard c) as" "filter isPhasePass as = []"
    using as by (simp_all add: list_all_iff filter_empty_conv)
  have b1: "list_all (\<lambda>c. \<not> hazard c) bs" "filter isPhasePass bs = []"
    using bs by (simp_all add: list_all_iff filter_empty_conv)
  have 1: "list_all (\<lambda>c. \<not> hazard c) (as @ [?p] @ bs)"
    using a1(1) b1(1) nh by simp
  have 3: "filter isPhasePass (as @ [?p] @ bs) = [?p]"
    using a1(2) b1(2) by simp
  have 4: "pingPhase (fst (OceanFFT_update dt (f, r))) = (\<not> pingPhase f)"
    by (simp add: fst_OceanFFT_update Let_def)
  have 5: "phaseSourceBuffer (fst (OceanFFT_update dt (f, r)))
       = (if pingPhase f then PongPhaseFramebuffer else PingPhaseFramebuffer)"
    by (simp add: fst_OceanFFT_update Let_def phaseSourceBuffer_def)
  from 1 3 4 5 show ?thesis unfolding i by blast
qed

text \<open>The updates at the resolutions 256 and 128 evaluated.\<close>

lemmas update_eval =
  new_OceanFFT_def ensurePowerOfTwo_def js_bitand_def Float32Array_throws_def
  optionalParameter_def setWind_def OceanFFT_update_def Let_def issued_def
  renderInitialSpectrum_def renderWavePhase_def renderSpectrum_def renderSpectrumFFT_def
  renderNormalMap_def horizontalPass_def verticalPass_def
  phaseSourceBuffer_def phaseSource_def setRenderTarget_def render_def clear_def

lemma log2_256: "log2 256 = 8"
  by simp

lemma upt_0_8: "[0..<8] = [0, 1, 2, 3, 4, 5, 6, 7]"
  by code_simp

lemma upt_8_16: "[8..<16] = [8, 9, 10, 11, 12, 13, 14, 15]"
  by code_simp

lemma log2_128: "log2 128 = 7"
  by simp

lemma upt_0_7: "[0..<7] = [0, 1, 2, 3, 4, 5, 6]"
  by code_simp

lemma upt_7_14: "[7..<14] = [7, 8, 9, 10, 11, 12, 13]"
  by code_simp

text \<open>
  At the resolution 256 (eight iterations) the sixteen subtransform passes alternate the
  two transform framebuffers: each samples what the pass before it rendered, and the last
  one samples the ping framebuffer, which the pass before it has just written.
\<close>

lemma transform_passes_chained_at_256:
  "(case new_OceanFFT 4294967295 (\<lambda>i j. 1 / 2)
           \<lparr>opt_resolution = Some 256, opt_size = Some 980, opt_choppiness = None,
            opt_windSpeed = None, opt_windDirection = None, opt_useHalfFloat = None\<rparr> of
      Inl e \<Rightarrow> False
    | Inr f0 \<Rightarrow>
        chained (filter isTransformPass
          (issued
             \<lparr>currentRenderTarget = None, commands = [], xr_enabled = False,
           shadowMap_autoUpdate = True, autoClear = True, depth_mask = True,
           state_viewport = None\<rparr>
             (snd (OceanFFT_update (1 / 60)
                (f0, \<lparr>currentRenderTarget = None, commands = [], xr_enabled = False,
           shadowMap_autoUpdate = True, autoClear = True, depth_mask = True,
           state_viewport = None\<rparr>)))))
        \<and> drop 14 (filter isTransformPass
          (issued
             \<lparr>currentRenderTarget = None, commands = [], xr_enabled = False,
           shadowMap_autoUpdate = True, autoClear = True, depth_mask = True,
           state_viewport = None\<rparr>
             (snd (OceanFFT_update (1 / 60)
                (f0, \<lparr>currentRenderTarget = None, commands = [], xr_enabled = False,
           shadowMap_autoUpdate = True, autoClear = True, depth_mask = True,
           state_viewport = None\<rparr>)))))
          = [Render (MaterialOceanVertical 128) [PongTransformFramebuffer]
               (Some PingTransformFramebuffer),
             Render (MaterialOceanVertical 256) [PingTransformFramebuffer]
               (Some DisplacementMapFramebuffer)])"
  by (simp add: update_eval log2_256 upt_0_8 upt_8_16 del: log2.simps)

text \<open>
  Claim C6 at the resolution 128 of the performance preset (seven iterations, as at 512
  with nine): the passes do not alternate to the end.  The last but one subtransform pass
  samples the pong framebuffer and renders into the ping framebuffer; the last pass samples
  the pong framebuffer again, not the ping framebuffer just written, so the result of the
  pass before it never reaches the displacement map.
\<close>

theorem transform_passes_not_chained_at_128:
  "(case new_OceanFFT 4294967295 (\<lambda>i j. 1 / 2)
           \<lparr>opt_resolution = Some 128, opt_size = Some 840, opt_choppiness = None,
            opt_windSpeed = None, opt_windDirection = None, opt_useHalfFloat = None\<rparr> of
      Inl e \<Rightarrow> False
    | Inr f0 \<Rightarrow>
        \<not> chained (filter isTransformPass
          (issued
             \<lparr>currentRenderTarget = None, commands = [], xr_enabled = False,
           shadowMap_autoUpdate = True, autoClear = True, depth_mask = True,
           state_viewport = None\<rparr>
             (snd (OceanFFT_update (1 / 60)
                (f0, \<lparr>currentRenderTarget = None, commands = [], xr_enabled = False,
           shadowMap_autoUpdate = True, autoClear = True, depth_mask = True,
           state_viewport = None\<rparr>)))))
        \<and> drop 12 (filter isTransformPass
          (issued
             \<lparr>currentRenderTarget = None, commands = [], xr_enabled = False,
           shadowMap_autoUpdate = True, autoClear = True, depth_mask = True,
           state_viewport = None\<rparr>
             (snd (OceanFFT_update (1 / 60)
                (f0, \<lparr>currentRenderTarget = None, commands = [], xr_enabled = False,
           shadowMap_autoUpdate = True, autoClear = True, depth_mask = True,
           state_viewport = None\<rparr>)))))
          = [Render (MaterialOceanVertical 64) [PongTransformFramebuffer]
               (Some PingTransformFramebuffer),
             Render (MaterialOceanVertical 128) [PongTransformFramebuffer]
               (Some DisplacementMapFramebuffer)])"
  by (simp add: update_eval log2_128 upt_0_7 upt_7_14 del: log2.simps)

section \<open>Properties of OceanSystem\<close>

text \<open>\<open>rebuild\<close> stores the preset name before anything else, whatever happens later.\<close>

lemma teardown_keeps:
  "qualityPreset (teardown s) = qualityPreset s"
  "quality (teardown s) = quality s"
  "params (teardown s) = params s"
  by (simp_all add: teardown_def Let_def split: option.splits prod.splits)

lemma applyOceanParams_keeps:
  "qualityPreset (applyOceanParams s) = qualityPreset s"
  "quality (applyOceanParams s) = quality s"
  by (simp_all add: applyOceanParams_def Let_def split: option.splits prod.splits)

lemma qualityPreset_rebuild: "qualityPreset (fst (rebuild limit rnd name s)) = name"
  by (simp add: rebuild_def Let_def teardown_keeps applyOceanParams_keeps
      split: sum.splits)

text \<open>
  Claim C8: after a call \<open>setQualityPreset(name)\<close>, a second call with the same name
  returns at once, without an error and with the system exactly as the first call left
  it: the same \<open>OceanFFT\<close>, material and \<open>OceanLODGrid\<close> references, nothing constructed
  (\<open>allocated\<close>) and nothing disposed (\<open>disposed\<close>).  This holds for every name and every
  outcome of the first call, since the first call stores the name even when it throws.
\<close>

theorem setQualityPreset_twice:
  "setQualityPreset limit' rnd' name (fst (setQualityPreset limit rnd name s))
     = (fst (setQualityPreset limit rnd name s), None)"
proof -
  have "qualityPreset (fst (setQualityPreset limit rnd name s)) = name"
    by (simp add: setQualityPreset_def qualityPreset_rebuild)
  then show ?thesis by (simp add: setQualityPreset_def)
qed

text \<open>When the quality has a power-of-two resolution and two or more level sizes, \<open>rebuild\<close> succeeds.\<close>

lemma addRing_keeps:
  "levels (addRing lv i g) = levels g"
  "baseCellSize (addRing lv i g) = baseCellSize g"
  "ringOverlap (addRing lv i g) = ringOverlap g"
  "grid_material (addRing lv i g) = grid_material g"
  "group_scale (addRing lv i g) = group_scale g"
  by (simp_all add: addRing_def addMesh_def Let_def)

lemma fold_addRing_keeps:
  "levels (fold (addRing lv) is g) = levels g
   \<and> baseCellSize (fold (addRing lv) is g) = baseCellSize g
   \<and> ringOverlap (fold (addRing lv) is g) = ringOverlap g
   \<and> grid_material (fold (addRing lv) is g) = grid_material g
   \<and> group_scale (fold (addRing lv) is g) = group_scale g"
  by (induction "is" arbitrary: g) (simp_all add: addRing_keeps)

lemma new_OceanLODGrid_succeeds:
  assumes "2 \<le> length lv"
  shows "\<exists>g. new_OceanLODGrid mat (Some lv) cell ov = Inr g
           \<and> levels g = Some lv
           \<and> baseCellSize g = optionalParameter cell 1
           \<and> ringOverlap g = optionalParameter ov (1 / 2)
           \<and> grid_material g = mat
           \<and> group_scale g = (1, 1, 1)"
  using assms
  by (simp add: new_OceanLODGrid_def build_def Let_def fold_addRing_keeps addMesh_def)

lemma new_OceanFFT_succeeds:
  assumes "ensurePowerOfTwo (optionalParameter (opt_resolution options) 256) = Inr n"
    and "\<not> Float32Array_throws limit (n * n * 4)"
  shows "\<exists>f. new_OceanFFT limit rnd options = Inr f
           \<and> resolution f = n
           \<and> size_fft f = optionalParameter (opt_size options) 1000"
  using assms by (simp add: new_OceanFFT_def setWind_def Let_def)

lemma setLodScale_keeps:
  "levels (setLodScale c g) = levels g"
  "baseCellSize (setLodScale c g) = baseCellSize g"
  "ringOverlap (setLodScale c g) = ringOverlap g"
  "grid_material (setLodScale c g) = grid_material g"
  by (simp_all add: setLodScale_def Let_def)

lemma setWind_keeps:
  "resolution (setWind w d f) = resolution f" "size_fft (setWind w d f) = size_fft f"
  by (simp_all add: setWind_def Let_def)

lemma setChoppiness_keeps:
  "resolution (setChoppiness c f) = resolution f" "size_fft (setChoppiness c f) = size_fft f"
  by (simp_all add: setChoppiness_def)

lemma rebuild_succeeds:
  assumes res: "ensurePowerOfTwo (optionalParameter (q_fftResolution (select_quality name)) 256) = Inr n"
    and alloc: "\<not> Float32Array_throws limit (n * n * 4)"
    and lv: "q_levelSizes (select_quality name) = Some lv" "2 \<le> length lv"
  shows "\<exists>s' f g u.
           rebuild limit rnd name s = (s', None)
         \<and> qualityPreset s' = name
         \<and> quality s' = select_quality name
         \<and> fft s' = Some (allocated s, f)
         \<and> resolution f = n
         \<and> size_fft f = optionalParameter (q_simulationSize (select_quality name)) 1000
         \<and> material_ref s' = Some (allocated s + 1)
         \<and> uniforms s' = Some u
         \<and> uSimSize u = q_simulationSize (select_quality name)
         \<and> lodGrid s' = Some (allocated s + 2, g)
         \<and> levels g = Some lv
         \<and> baseCellSize g = optionalParameter (q_baseCellSize (select_quality name)) 1
         \<and> ringOverlap g = optionalParameter (q_ringOverlap (select_quality name)) (1 / 2)
         \<and> grid_material g = allocated s + 1
         \<and> allocated s' = allocated s + 3"
proof -
  let ?q = "select_quality name"
  let ?s1 = "teardown (s\<lparr>qualityPreset := name, quality := ?q\<rparr>)"
  have k: "qualityPreset ?s1 = name" "quality ?s1 = ?q" "params ?s1 = params s"
    by (simp_all add: teardown_keeps)
  have a: "allocated ?s1 = allocated s"
    by (simp add: teardown_def Let_def split: option.splits prod.splits)
  let ?p = "params s"
  let ?o = "\<lparr>opt_resolution = q_fftResolution ?q,
                 opt_size = q_simulationSize ?q,
                 opt_choppiness = Some (param_choppiness ?p),
                 opt_windSpeed = Some (param_windSpeed ?p),
                 opt_windDirection = Some (toRadians (param_windDirection ?p)),
                 opt_useHalfFloat = Some True\<rparr>"
  from new_OceanFFT_succeeds [of ?o n limit rnd] res alloc
  obtain f where f: "new_OceanFFT limit rnd ?o = Inr f" "resolution f = n"
    "size_fft f = optionalParameter (q_simulationSize ?q) 1000" by auto
  from new_OceanLODGrid_succeeds [OF lv(2), of "Suc (allocated s)" "q_baseCellSize ?q" "q_ringOverlap ?q"]
  obtain g where g: "new_OceanLODGrid (Suc (allocated s)) (Some lv) (q_baseCellSize ?q) (q_ringOverlap ?q) = Inr g"
    "levels g = Some lv" "baseCellSize g = optionalParameter (q_baseCellSize ?q) 1"
    "ringOverlap g = optionalParameter (q_ringOverlap ?q) (1 / 2)"
    "grid_material g = Suc (allocated s)" by auto
  show ?thesis
    unfolding rebuild_def Let_def
    by (simp add: k a f g lv applyOceanParams_def Let_def setLodScale_keeps setWind_keeps
        setChoppiness_keeps createOceanMaterial_def)
qed

lemma ensurePowerOfTwo_presets:
  "ensurePowerOfTwo 128 = Inr 128" "ensurePowerOfTwo 256 = Inr 256" "ensurePowerOfTwo 512 = Inr 512"
  by (simp_all add: ensurePowerOfTwo_def js_bitand_def)

lemma select_quality_unknown:
  assumes "name \<notin> {''performance'', ''balanced'', ''cinematic''}"
    and "name \<notin> set Object_prototype_keys"
  shows "select_quality name = balanced"
  using assms by (simp add: select_quality_def QUALITY_PRESETS_def)

lemma select_quality_toString: "select_quality ''toString'' = Object_prototype_member"
  by (simp add: select_quality_def QUALITY_PRESETS_def Object_prototype_keys_def)

text \<open>
  For a name that is neither an own key of \<open>QUALITY_PRESETS\<close> nor a member of
  \<open>Object.prototype\<close>, and an engine that allocates the seed array of the resolution 256,
  construction succeeds with the values of the balanced preset, the name is kept, and
  \<open>setQualityPreset\<close> with that name does nothing.
\<close>

lemma unknown_preset_falls_back_to_balanced:
  assumes "name \<notin> {''performance'', ''balanced'', ''cinematic''}"
    and "name \<notin> set Object_prototype_keys"
    and "262144 \<le> limit"
  shows "\<exists>s f g u.
           new_OceanSystem limit rnd (Some name) given = Inr s
         \<and> qualityPreset s = name
         \<and> quality s = balanced
         \<and> fft s = Some (0, f) \<and> resolution f = 256 \<and> size_fft f = 980
         \<and> uniforms s = Some u \<and> uSimSize u = Some 980
         \<and> lodGrid s = Some (2, g)
         \<and> levels g = Some [256, 512, 1024, 2048, 4096, 8192, 16384]
         \<and> baseCellSize g = double_round (12 / 10) \<and> ringOverlap g = 5 / 10
         \<and> setQualityPreset limit' rnd' name s = (s, None)"
proof -
  note q = select_quality_unknown [OF assms(1,2)]
  let ?s0 = "\<lparr>qualityPreset = name, quality = select_quality name,
              params = merge_params given, fft = None, lodGrid = None, material_ref = None,
              uniforms = None, root_children = [], allocated = 0, disposed = []\<rparr>"
  have "ensurePowerOfTwo (optionalParameter (q_fftResolution (select_quality name)) 256) = Inr 256"
    by (simp add: q balanced_def optionalParameter_def ensurePowerOfTwo_presets)
  moreover have "\<not> Float32Array_throws limit (256 * 256 * 4)"
    using assms(3) by (simp add: Float32Array_throws_def)
  moreover have "q_levelSizes (select_quality name) = Some [256, 512, 1024, 2048, 4096, 8192, 16384]"
    by (simp add: q balanced_def)
  moreover have "2 \<le> length [256, 512, 1024, 2048, 4096, 8192, 16384 :: real]" by simp
  ultimately obtain s f g u where
    r: "rebuild limit rnd name ?s0 = (s, None)"
      "qualityPreset s = name" "quality s = select_quality name"
      "fft s = Some (allocated ?s0, f)" "resolution f = 256"
      "size_fft f = optionalParameter (q_simulationSize (select_quality name)) 1000"
      "uniforms s = Some u" "uSimSize u = q_simulationSize (select_quality name)"
      "lodGrid s = Some (allocated ?s0 + 2, g)"
      "levels g = Some [256, 512, 1024, 2048, 4096, 8192, 16384]"
      "baseCellSize g = optionalParameter (q_baseCellSize (select_quality name)) 1"
      "ringOverlap g = optionalParameter (q_ringOverlap (select_quality name)) (1 / 2)"
    using rebuild_succeeds [of name 256 limit _ rnd ?s0] by blast
  have c: "new_OceanSystem limit rnd (Some name) given = Inr s"
    by (simp add: new_OceanSystem_def Let_def optionalParameter_def r(1))
  have n: "setQualityPreset limit' rnd' name s = (s, None)"
    by (simp add: setQualityPreset_def r(2))
  have b: "baseCellSize g = double_round (12 / 10)" "ringOverlap g = 5 / 10"
    "size_fft f = 980" "uSimSize u = Some 980" "quality s = balanced"
    unfolding r q by (simp_all add: balanced_def optionalParameter_def)
  from r(2,4,5,7,9,10) b c n show ?thesis by simp
qed

text \<open>
  Claim C9 at the preset name \<open>'toString'\<close>, which is none of the three presets: the lookup
  finds \<open>Object.prototype.toString\<close>, a truthy value, so the balanced preset is not
  substituted; the level sizes read from it are undefined and the \<open>OceanLODGrid\<close>
  constructor throws.  \<open>rebuild\<close> ends with the error and without a grid.  (An engine that
  cannot allocate the 262144 floats of the seed array at the default resolution 256 fails
  earlier, in the \<open>OceanFFT\<close> constructor; construction fails in either case.)
\<close>

theorem inherited_key_preset_throws:
  "new_OceanSystem limit rnd (Some ''toString'') given
     = Inl (if limit < 262144 then RangeError_invalid_typed_array_length
            else Ocean_LOD_requires_at_least_2_level_sizes)
   \<and> snd (rebuild limit rnd ''toString'' s)
     = Some (if limit < 262144 then RangeError_invalid_typed_array_length
             else Ocean_LOD_requires_at_least_2_level_sizes)
   \<and> lodGrid (fst (rebuild limit rnd ''toString'' s)) = None"
proof -
  have e: "ensurePowerOfTwo (optionalParameter None 256) = Inr 256"
    by (simp add: optionalParameter_def ensurePowerOfTwo_presets)
  have a: "Float32Array_throws limit 262144 = (limit < 262144)"
    by (simp add: Float32Array_throws_def)
  have l: "new_OceanLODGrid m None None None = Inl Ocean_LOD_requires_at_least_2_level_sizes" for m
    by (simp add: new_OceanLODGrid_def build_def)
  have t: "lodGrid (teardown x) = None" for x
    by (simp add: teardown_def Let_def split: option.splits prod.splits)
  have r: "snd (rebuild limit rnd ''toString'' x)
             = Some (if limit < 262144 then RangeError_invalid_typed_array_length
                     else Ocean_LOD_requires_at_least_2_level_sizes)
           \<and> lodGrid (fst (rebuild limit rnd ''toString'' x)) = None" for x
    by (simp add: rebuild_def Let_def teardown_keeps select_quality_toString
        Object_prototype_member_def new_OceanFFT_def e a l t)
  let ?s0 = "\<lparr>qualityPreset = ''toString'', quality = select_quality ''toString'',
              params = merge_params given, fft = None, lodGrid = None, material_ref = None,
              uniforms = None, root_children = [], allocated = 0, disposed = []\<rparr>"
  obtain x where x: "rebuild limit rnd ''toString'' ?s0
      = (x, Some (if limit < 262144 then RangeError_invalid_typed_array_length
                  else Ocean_LOD_requires_at_least_2_level_sizes))"
    using r [of ?s0] by (cases "rebuild limit rnd ''toString'' ?s0") simp
  have "new_OceanSystem limit rnd (Some ''toString'') given
     = Inl (if limit < 262144 then RangeError_invalid_typed_array_length
            else Ocean_LOD_requires_at_least_2_level_sizes)"
    by (simp add: new_OceanSystem_def Let_def optionalParameter_def x)
  with r [of s] show ?thesis by blast
qed

text \<open>What \<open>teardown\<close> disposes.\<close>

lemma teardown_disposed:
  "disposed (teardown (s\<lparr>qualityPreset := a, quality := b\<rparr>)) = disposed (teardown s)"
  by (simp add: teardown_def Let_def split: option.splits prod.splits)

lemma teardown_full:
  assumes "lodGrid s = Some (gr, g)" "material_ref s = Some m" "fft s = Some (fr, f)"
  shows "disposed (teardown s) = disposed s @ [gr, m, fr]"
  using assms by (simp add: teardown_def Let_def)

lemma teardown_empty:
  assumes "lodGrid s = None" "material_ref s = None" "fft s = None"
  shows "teardown s = s"
  using assms by (simp add: teardown_def Let_def)

lemma disposed_applyOceanParams: "disposed (applyOceanParams s) = disposed s"
  by (simp add: applyOceanParams_def Let_def split: option.splits prod.splits)

lemma disposed_rebuild: "disposed (fst (rebuild limit rnd name s)) = disposed (teardown s)"
  by (simp add: rebuild_def Let_def teardown_disposed disposed_applyOceanParams
      split: sum.splits)

text \<open>
  Claim C8 on a system built with \<open>'balanced'\<close> and switched to \<open>'cinematic'\<close> twice: the
  first call disposes the references 2, 1, 0 and constructs 3, 4, 5; the second changes
  nothing.
\<close>

theorem setQualityPreset_twice_witness:
  "(case new_OceanSystem 4294967295 (\<lambda>i j. 1 / 2) (Some ''balanced'') Map.empty of
      Inl e \<Rightarrow> False
    | Inr s \<Rightarrow>
        map_option fst (fft s) = Some 0
        \<and> disposed s = []
        \<and> map_option fst
             (fft (fst (setQualityPreset 4294967295 (\<lambda>i j. 1 / 2) ''cinematic'' s))) = Some 3
        \<and> disposed (fst (setQualityPreset 4294967295 (\<lambda>i j. 1 / 2) ''cinematic'' s))
            = [2, 1, 0]
        \<and> setQualityPreset 4294967295 (\<lambda>i j. 1 / 2) ''cinematic''
              (fst (setQualityPreset 4294967295 (\<lambda>i j. 1 / 2) ''cinematic'' s))
            = (fst (setQualityPreset 4294967295 (\<lambda>i j. 1 / 2) ''cinematic'' s), None))"
proof -
  let ?R = "\<lambda>(i::nat) (j::nat). 1 / 2 :: real"
  let ?L = "4294967295 :: int"
  let ?s0 = "\<lparr>qualityPreset = ''balanced'', quality = select_quality ''balanced'',
              params = merge_params Map.empty, fft = None, lodGrid = None, material_ref = None,
              uniforms = None, root_children = [], allocated = 0, disposed = []\<rparr>"
  have qb: "select_quality ''balanced'' = balanced"
    by (simp add: select_quality_def QUALITY_PRESETS_def)
  have qc: "select_quality ''cinematic'' = cinematic"
    by (simp add: select_quality_def QUALITY_PRESETS_def)
  have "ensurePowerOfTwo (optionalParameter (q_fftResolution (select_quality ''balanced'')) 256) = Inr 256"
    by (simp add: qb balanced_def optionalParameter_def ensurePowerOfTwo_presets)
  moreover have "\<not> Float32Array_throws ?L (256 * 256 * 4)"
    by (simp add: Float32Array_throws_def)
  moreover have "q_levelSizes (select_quality ''balanced'') = Some [256, 512, 1024, 2048, 4096, 8192, 16384]"
    by (simp add: qb balanced_def)
  moreover have "2 \<le> length [256, 512, 1024, 2048, 4096, 8192, 16384 :: real]" by simp
  ultimately obtain s f g where
    s: "rebuild ?L ?R ''balanced'' ?s0 = (s, None)" "qualityPreset s = ''balanced''"
      "fft s = Some (allocated ?s0, f)" "material_ref s = Some (allocated ?s0 + 1)"
      "lodGrid s = Some (allocated ?s0 + 2, g)" "allocated s = allocated ?s0 + 3"
    using rebuild_succeeds [of "''balanced''" 256 ?L _ ?R ?s0] by blast
  have c: "new_OceanSystem ?L ?R (Some ''balanced'') Map.empty = Inr s"
    by (simp add: new_OceanSystem_def Let_def optionalParameter_def s(1))
  have ds: "disposed s = []"
    using disposed_rebuild [of ?L ?R "''balanced''" ?s0] s(1) by (simp add: teardown_empty)
  have "ensurePowerOfTwo (optionalParameter (q_fftResolution (select_quality ''cinematic'')) 256) = Inr 512"
    by (simp add: qc cinematic_def optionalParameter_def ensurePowerOfTwo_presets)
  moreover have "\<not> Float32Array_throws ?L (512 * 512 * 4)"
    by (simp add: Float32Array_throws_def)
  moreover have "q_levelSizes (select_quality ''cinematic'') = Some [320, 640, 1280, 2560, 5120, 10240, 20480]"
    by (simp add: qc cinematic_def)
  moreover have "2 \<le> length [320, 640, 1280, 2560, 5120, 10240, 20480 :: real]" by simp
  ultimately obtain s1 f1 where
    s1: "rebuild ?L ?R ''cinematic'' s = (s1, None)" "fft s1 = Some (allocated s, f1)"
    using rebuild_succeeds [of "''cinematic''" 512 ?L _ ?R s] by blast
  have one: "setQualityPreset ?L ?R ''cinematic'' s = (s1, None)"
    by (simp add: setQualityPreset_def s(2) s1(1))
  have d1: "disposed s1 = [2, 1, 0]"
    using disposed_rebuild [of ?L ?R "''cinematic''" s] s1(1) teardown_full [OF s(5) s(4) s(3)] ds
    by simp
  have f3: "map_option fst (fft s1) = Some 3"
    by (simp add: s1(2) s(6))
  have two: "setQualityPreset ?L ?R ''cinematic'' s1 = (s1, None)"
    using setQualityPreset_twice [of ?L ?R "''cinematic''" ?L ?R s] by (simp add: one)
  show ?thesis
    by (simp add: c one two d1 f3 ds s(3))
qed

section \<open>Properties of PlanarReflectionPass.update\<close>

text \<open>The first part of \<open>update\<close> writes scratch vectors only.\<close>

lemma computeView_keeps:
  "rp_renderer (computeView oroot p) = rp_renderer p"
  "textureMatrix (computeView oroot p) = textureMatrix p"
  "oceanRoot (computeView oroot p) = oceanRoot p"
  "mirrorCamera (computeView oroot p) = mirrorCamera p"
  "rp_camera (computeView oroot p) = rp_camera p"
  by (simp_all add: computeView_def Let_def)

text \<open>
  Claim C4: with a visible ocean root and the camera on the back side of the plane (the
  view vector, from the camera to the ocean root, has a positive dot product with the plane
  normal), \<open>update\<close> returns after filling its scratch vectors.  It issues no command, so
  nothing is written to the reflection target; the renderer, with its bound render target,
  the texture matrix, the mirror camera, the ocean root and the ocean uniforms are as
  before.
\<close>

theorem PlanarReflectionPass_update_back_side:
  assumes "oceanRoot p = Some oroot" and "visible oroot"
    and "v3_dot (rp_view (computeView oroot p)) (rp_normal (computeView oroot p)) > 0"
  shows "PlanarReflectionPass_update three (p, u) = (computeView oroot p, u)
       \<and> issued (rp_renderer p) (rp_renderer (fst (PlanarReflectionPass_update three (p, u)))) = []
       \<and> rp_renderer (fst (PlanarReflectionPass_update three (p, u))) = rp_renderer p
       \<and> currentRenderTarget (rp_renderer (fst (PlanarReflectionPass_update three (p, u))))
           = currentRenderTarget (rp_renderer p)
       \<and> textureMatrix (fst (PlanarReflectionPass_update three (p, u))) = textureMatrix p
       \<and> mirrorCamera (fst (PlanarReflectionPass_update three (p, u))) = mirrorCamera p
       \<and> oceanRoot (fst (PlanarReflectionPass_update three (p, u))) = oceanRoot p
       \<and> snd (PlanarReflectionPass_update three (p, u)) = u"
proof -
  have "PlanarReflectionPass_update three (p, u) = (computeView oroot p, u)"
    using assms by (simp add: PlanarReflectionPass_update_def Let_def)
  then show ?thesis by (simp add: computeView_keeps issued_def)
qed

text \<open>
  On the other side the pass does draw: the scene is rendered into the reflection target
  (after a clear when \<open>autoClear\<close> is off), the bound target is restored and the reflection
  map of the uniforms is set.
\<close>

lemma PlanarReflectionPass_update_front_side:
  assumes "oceanRoot p = Some oroot" and "visible oroot"
    and "\<not> v3_dot (rp_view (computeView oroot p)) (rp_normal (computeView oroot p)) > 0"
  shows "issued (rp_renderer p) (rp_renderer (fst (PlanarReflectionPass_update three (p, u))))
           = (if autoClear (rp_renderer p) then [] else [Clear (Some ReflectionRenderTarget)])
             @ [Render SceneMaterials [] (Some ReflectionRenderTarget)]"
    and "currentRenderTarget (rp_renderer (fst (PlanarReflectionPass_update three (p, u))))
           = currentRenderTarget (rp_renderer p)"
    and "map_option uReflectionMap (snd (PlanarReflectionPass_update three (p, u)))
           = map_option (\<lambda>x. Some ReflectionRenderTarget) u"
  using assms
  by (simp_all add: PlanarReflectionPass_update_def Let_def renderReflection_def
      computeView_keeps issued_def render_def clear_def setRenderTarget_def option.map_comp comp_def
      split: prod.splits option.splits)

text \<open>
  Claim C4 with the ocean root at the origin and the camera five units below it: the view
  vector is \<open>(0, 5, 0)\<close>, the normal \<open>(0, 1, 0)\<close>, and only scratch vectors change.
\<close>

theorem PlanarReflectionPass_update_back_side_witness:
  "PlanarReflectionPass_update
     \<lparr>lookAt_matrixWorldInverse = (\<lambda>position up target. mat4_identity),
      plane_applyMatrix4 = (\<lambda>plane m. plane)\<rparr>
     (\<lparr>rp_renderer =
         \<lparr>currentRenderTarget = Some (HostRenderTarget 1),
          commands = [Render SceneMaterials [] (Some ReflectionRenderTarget)],
          xr_enabled = False, shadowMap_autoUpdate = True, autoClear = True,
          depth_mask = True, state_viewport = None\<rparr>,
       rp_camera =
         \<lparr>cam_matrixWorld = [1, 0, 0, 0,  0, 1, 0, 0,  0, 0, 1, 0,  0, - 5, 0, 1],
          cam_projectionMatrix = mat4_identity,
          cam_fov = 50, cam_aspect = 1, cam_near = 1 / 10, cam_far = 2000,
          cam_viewport = None\<rparr>,
       oceanRoot = Some \<lparr>visible = True, matrixWorld = mat4_identity\<rparr>,
       resolutionScale = 8 / 10,
       textureMatrix = reflectionTextureMatrix,
       mirrorCamera =
         \<lparr>mc_position = (0, 0, 0), mc_up = (0, 1, 0), mc_fov = 50, mc_aspect = 1,
          mc_near = 1 / 10, mc_far = 2000, mc_matrixWorldInverse = mat4_identity,
          mc_projectionMatrix = mat4_identity\<rparr>,
       mirrorPlane = ((1, 0, 0), 0),
       rp_normal = (0, 0, 0),
       mirrorWorldPosition = (0, 0, 0),
       cameraWorldPosition = (0, 0, 0),
       rotationMatrix = mat4_identity,
       lookAtPosition = (0, 0, - 1),
       clipPlane = (0, 0, 0, 1),
       rp_view = (0, 0, 0),
       rp_target = (0, 0, 0),
       rp_q = (0, 0, 0, 1)\<rparr>,
      None)
   = (\<lparr>rp_renderer =
         \<lparr>currentRenderTarget = Some (HostRenderTarget 1),
          commands = [Render SceneMaterials [] (Some ReflectionRenderTarget)],
          xr_enabled = False, shadowMap_autoUpdate = True, autoClear = True,
          depth_mask = True, state_viewport = None\<rparr>,
       rp_camera =
         \<lparr>cam_matrixWorld = [1, 0, 0, 0,  0, 1, 0, 0,  0, 0, 1, 0,  0, - 5, 0, 1],
          cam_projectionMatrix = mat4_identity,
          cam_fov = 50, cam_aspect = 1, cam_near = 1 / 10, cam_far = 2000,
          cam_viewport = None\<rparr>,
       oceanRoot = Some \<lparr>visible = True, matrixWorld = mat4_identity\<rparr>,
       resolutionScale = 8 / 10,
       textureMatrix = reflectionTextureMatrix,
       mirrorCamera =
         \<lparr>mc_position = (0, 0, 0), mc_up = (0, 1, 0), mc_fov = 50, mc_aspect = 1,
          mc_near = 1 / 10, mc_far = 2000, mc_matrixWorldInverse = mat4_identity,
          mc_projectionMatrix = mat4_identity\<rparr>,
       mirrorPlane = ((1, 0, 0), 0),
       rp_normal = (0, 1, 0),
       mirrorWorldPosition = (0, 0, 0),
       cameraWorldPosition = (0, - 5, 0),
       rotationMatrix = mat4_identity,
       lookAtPosition = (0, 0, - 1),
       clipPlane = (0, 0, 0, 1),
       rp_view = (0, 5, 0),
       rp_target = (0, 0, 0),
       rp_q = (0, 0, 0, 1)\<rparr>,
      None)"
proof -
  let ?three = "\<lparr>lookAt_matrixWorldInverse = (\<lambda>position up target. mat4_identity),
      plane_applyMatrix4 = (\<lambda>plane m. plane)\<rparr>"
  let ?oroot = "\<lparr>visible = True, matrixWorld = mat4_identity\<rparr>"
  let ?p = "\<lparr>rp_renderer =
         \<lparr>currentRenderTarget = Some (HostRenderTarget 1),
          commands = [Render SceneMaterials [] (Some ReflectionRenderTarget)],
          xr_enabled = False, shadowMap_autoUpdate = True, autoClear = True,
          depth_mask = True, state_viewport = None\<rparr>,
       rp_camera =
         \<lparr>cam_matrixWorld = [1, 0, 0, 0,  0, 1, 0, 0,  0, 0, 1, 0,  0, - 5, 0, 1],
          cam_projectionMatrix = mat4_identity,
          cam_fov = 50, cam_aspect = 1, cam_near = 1 / 10, cam_far = 2000,
          cam_viewport = None\<rparr>,
       oceanRoot = Some ?oroot,
       resolutionScale = 8 / 10,
       textureMatrix = reflectionTextureMatrix,
       mirrorCamera =
         \<lparr>mc_position = (0, 0, 0), mc_up = (0, 1, 0), mc_fov = 50, mc_aspect = 1,
          mc_near = 1 / 10, mc_far = 2000, mc_matrixWorldInverse = mat4_identity,
          mc_projectionMatrix = mat4_identity\<rparr>,
       mirrorPlane = ((1, 0, 0), 0),
       rp_normal = (0, 0, 0),
       mirrorWorldPosition = (0, 0, 0),
       cameraWorldPosition = (0, 0, 0),
       rotationMatrix = mat4_identity,
       lookAtPosition = (0, 0, - 1),
       clipPlane = (0, 0, 0, 1),
       rp_view = (0, 0, 0),
       rp_target = (0, 0, 0),
       rp_q = (0, 0, 0, 1)\<rparr>"
  have cv: "computeView ?oroot ?p =
      ?p\<lparr>rp_normal := (0, 1, 0), cameraWorldPosition := (0, - 5, 0), rp_view := (0, 5, 0)\<rparr>"
    by (simp add: computeView_def Let_def setFromMatrixPosition_def extractRotation_def
        mat4_identity_def v3_length_def v3_normalize_def)
  have a: "oceanRoot ?p = Some ?oroot" by simp
  have b: "visible ?oroot" by simp
  have c: "v3_dot (rp_view (computeView ?oroot ?p)) (rp_normal (computeView ?oroot ?p)) > 0"
    unfolding cv by simp
  from PlanarReflectionPass_update_back_side [OF a b c, of ?three None]
  have "PlanarReflectionPass_update ?three (?p, None) = (computeView ?oroot ?p, None)"
    by blast
  then show ?thesis unfolding cv by simp
qed

end
